theory Spec2Isabelle
  imports Main
begin

section \<open>JavaScript values read by the proxy\<close>

text \<open>
  The handlers of \<^verbatim>\<open>index.js\<close> inspect two JSON documents: the request body that
  \<^verbatim>\<open>express.json\<close> leaves in \<^verbatim>\<open>req.body\<close>, and the document \<^verbatim>\<open>r.json()\<close>
  parses from the upstream answer. A JavaScript value is a JSON value or
  \<^verbatim>\<open>undefined\<close>; \<^verbatim>\<open>undefined\<close> is \<open>None\<close>. Numbers are IEEE doubles: their type
  is the parameter \<open>'n\<close>. An object is the list of its own properties in the order
  \<^verbatim>\<open>JSON.stringify\<close> enumerates them, with distinct keys.
\<close>

datatype 'n json =
    JNull
  | JBool bool
  | JNum 'n
  | JStr string
  | JArr "'n json list"
  | JObj "(string \<times> 'n json) list"

type_synonym 'n jsval = "'n json option"

text \<open>
  What the JavaScript engine does with a number (is it neither zero nor NaN, how does
  \<^verbatim>\<open>JSON.stringify\<close> print it) and how \<^verbatim>\<open>JSON.stringify\<close> quotes a string are
  functions of the platform, not of this repository: they are parameters.
\<close>

record 'n platform =
  num_truthy :: "'n \<Rightarrow> bool"
  num_text :: "'n \<Rightarrow> string"
  str_text :: "string \<Rightarrow> string"

text \<open>\<^verbatim>\<open>!v\<close> is \<open>\<not> truthy pf v\<close>.\<close>

fun truthy :: "'n platform \<Rightarrow> 'n jsval \<Rightarrow> bool" where
  "truthy pf None = False"
| "truthy pf (Some JNull) = False"
| "truthy pf (Some (JBool b)) = b"
| "truthy pf (Some (JNum n)) = num_truthy pf n"
| "truthy pf (Some (JStr s)) = (s \<noteq> [])"
| "truthy pf (Some (JArr xs)) = True"
| "truthy pf (Some (JObj kvs)) = True"

text \<open>
  \<^verbatim>\<open>v.k\<close> for the property names the handlers read (\<^verbatim>\<open>message\<close>, \<^verbatim>\<open>candidates\<close>,
  \<^verbatim>\<open>output\<close>, \<^verbatim>\<open>content\<close>): a TypeError on \<^verbatim>\<open>null\<close> and \<^verbatim>\<open>undefined\<close>, the own
  property of an object, \<^verbatim>\<open>undefined\<close> on an array and on a primitive (none of these
  names is inherited from a prototype).
\<close>

fun member :: "'n jsval \<Rightarrow> string \<Rightarrow> string + 'n jsval" where
  "member None k = Inl ''TypeError''"
| "member (Some JNull) k = Inl ''TypeError''"
| "member (Some (JObj kvs)) k = Inr (map_of kvs k)"
| "member (Some (JBool b)) k = Inr None"
| "member (Some (JNum n)) k = Inr None"
| "member (Some (JStr s)) k = Inr None"
| "member (Some (JArr xs)) k = Inr None"

text \<open>
  \<^verbatim>\<open>v[0]\<close>: the first element of an array, the first character of a string, the
  property \<^verbatim>\<open>"0"\<close> of an object, \<^verbatim>\<open>undefined\<close> on a number or a boolean.
\<close>

fun index0 :: "'n jsval \<Rightarrow> string + 'n jsval" where
  "index0 None = Inl ''TypeError''"
| "index0 (Some JNull) = Inl ''TypeError''"
| "index0 (Some (JArr xs)) = Inr (case xs of [] \<Rightarrow> None | x # _ \<Rightarrow> Some x)"
| "index0 (Some (JStr s)) = Inr (case s of [] \<Rightarrow> None | c # _ \<Rightarrow> Some (JStr [c]))"
| "index0 (Some (JObj kvs)) = Inr (map_of kvs ''0'')"
| "index0 (Some (JBool b)) = Inr None"
| "index0 (Some (JNum n)) = Inr None"

text \<open>
  \<^verbatim>\<open>a && b\<close> and \<^verbatim>\<open>a || b\<close>. The right operand is a computation that may throw; it
  is run only when the left one does not decide the result.
\<close>

definition js_and :: "'n platform \<Rightarrow> 'n jsval \<Rightarrow> (string + 'n jsval) \<Rightarrow> string + 'n jsval" where
  "js_and pf a rest = (if truthy pf a then rest else Inr a)"

definition js_or :: "'n platform \<Rightarrow> 'n jsval \<Rightarrow> (string + 'n jsval) \<Rightarrow> string + 'n jsval" where
  "js_or pf a rest = (if truthy pf a then Inr a else rest)"

definition join_with :: "string \<Rightarrow> string list \<Rightarrow> string" where
  "join_with sep xs = (case xs of [] \<Rightarrow> [] | y # ys \<Rightarrow> y @ concat (map (\<lambda>z. sep @ z) ys))"

text \<open>\<^verbatim>\<open>JSON.stringify(v)\<close> for a value that \<^verbatim>\<open>JSON.parse\<close> produced.\<close>

fun stringify :: "'n platform \<Rightarrow> 'n json \<Rightarrow> string" where
  "stringify pf JNull = ''null''"
| "stringify pf (JBool b) = (if b then ''true'' else ''false'')"
| "stringify pf (JNum n) = num_text pf n"
| "stringify pf (JStr s) = str_text pf s"
| "stringify pf (JArr xs) = ''['' @ join_with '','' (map (stringify pf) xs) @ '']''"
| "stringify pf (JObj kvs) =
     ''{'' @ join_with '','' (map (\<lambda>kv. str_text pf (fst kv) @ '':'' @ stringify pf (snd kv)) kvs) @ ''}''"

section \<open>What a request does\<close>

text \<open>
  The handlers act on the response object, the abort controller, two timers and the
  upstream connection. A \<open>session\<close> records these effects for one request:
  \<^item> \<open>response\<close>: the status and JSON body sent with \<^verbatim>\<open>res.status(..).json(..)\<close> or
    \<^verbatim>\<open>res.json(..)\<close>;
  \<^item> \<open>stream_headers\<close>: the event-stream headers have been set;
  \<^item> \<open>wire\<close>: the events \<^verbatim>\<open>res.write\<close> has put on the response, oldest first;
    \<open>write_calls\<close> counts the calls of \<^verbatim>\<open>res.write\<close>, also those that threw;
  \<^item> \<open>ended\<close>: \<^verbatim>\<open>res.end()\<close> has been called;
  \<^item> \<open>closed\<close>: the handler's flag of that name;
  \<^item> \<open>heartbeat_on\<close>: the interval timer is active; \<open>clear_calls\<close> counts the calls
    of \<^verbatim>\<open>clearInterval(heartbeat)\<close>;
  \<^item> \<open>timer_armed\<close>: the upstream timeout is pending; \<open>abort_calls\<close> counts the calls
    of \<^verbatim>\<open>controller.abort()\<close>;
  \<^item> \<open>fetch_calls\<close>, \<open>read_calls\<close>: the calls of \<^verbatim>\<open>fetch\<close> and of
    \<^verbatim>\<open>reader.read()\<close>.
  Console output is not recorded.
\<close>

datatype sse = Heartbeat | Chunk string | Failure string | Done

record 'n http_response =
  status :: nat
  payload :: "'n json"

record 'n session =
  response :: "'n http_response option"
  stream_headers :: bool
  wire :: "sse list"
  write_calls :: nat
  ended :: bool
  closed :: bool
  heartbeat_on :: bool
  clear_calls :: nat
  timer_armed :: bool
  abort_calls :: nat
  fetch_calls :: nat
  read_calls :: nat

definition idle :: "'n session" where
  "idle = \<lparr> response = None, stream_headers = False, wire = [], write_calls = 0,
            ended = False, closed = False, heartbeat_on = False, clear_calls = 0,
            timer_armed = False, abort_calls = 0, fetch_calls = 0, read_calls = 0 \<rparr>"

text \<open>
  How a handler's promise settles: it returned, an exception with the given
  \<^verbatim>\<open>err.name\<close> left it, or it stays suspended at an \<^verbatim>\<open>await\<close> that never resolves.
\<close>

datatype completion = Completed | Thrown string | Suspended

datatype 'r fetch_outcome = Resolves 'r | Rejects string

text \<open>The text each event puts on the response.\<close>

definition render :: "'n platform \<Rightarrow> sse \<Rightarrow> string" where
  "render pf ev = (case ev of
      Heartbeat \<Rightarrow> '': heartbeat'' @ [CHR 0x0A, CHR 0x0A]
    | Chunk c \<Rightarrow> ''data: '' @ stringify pf (JObj [(''chunk'', JStr c)]) @ [CHR 0x0A, CHR 0x0A]
    | Failure m \<Rightarrow> ''data: '' @ stringify pf (JObj [(''error'', JStr m)]) @ [CHR 0x0A, CHR 0x0A]
    | Done \<Rightarrow> ''data: [DONE]'' @ [CHR 0x0A, CHR 0x0A])"

definition error_body :: "string \<Rightarrow> 'n json" where
  "error_body m = JObj [(''error'', JStr m)]"

text \<open>\<^verbatim>\<open>{ reply }\<close> as \<^verbatim>\<open>res.json\<close> serialises it: an undefined property is left out.\<close>

definition reply_body :: "'n jsval \<Rightarrow> 'n json" where
  "reply_body reply = JObj (case reply of None \<Rightarrow> [] | Some v \<Rightarrow> [(''reply'', v)])"

definition respond :: "nat \<Rightarrow> 'n json \<Rightarrow> 'n session \<Rightarrow> 'n session" where
  "respond code doc s = s\<lparr>response := Some \<lparr>status = code, payload = doc\<rparr>\<rparr>"

text \<open>\<^verbatim>\<open>return res.status(code).json({ error: m })\<close>\<close>

definition reject :: "nat \<Rightarrow> string \<Rightarrow> 'n session \<Rightarrow> 'n session \<times> completion" where
  "reject code m s = (respond code (error_body m) s, Completed)"

text \<open>\<^verbatim>\<open>!GEMINI_API_KEY\<close>: the variable is unset or the empty string.\<close>

definition key_missing :: "string option \<Rightarrow> bool" where
  "key_missing key = (case key of None \<Rightarrow> True | Some k \<Rightarrow> k = [])"

text \<open>\<^verbatim>\<open>const { message } = req.body || {}\<close>\<close>

definition read_message :: "'n platform \<Rightarrow> 'n jsval \<Rightarrow> string + 'n jsval" where
  "read_message pf body =
     (case js_or pf body (Inr (Some (JObj []))) of
        Inl e \<Rightarrow> Inl e
      | Inr b \<Rightarrow> member b ''message'')"

definition abort :: "'n session \<Rightarrow> 'n session" where
  "abort s = s\<lparr>abort_calls := Suc (abort_calls s)\<rparr>"

section \<open>The JSON endpoint\<close>

text \<open>
  \<^verbatim>\<open>(data && (data.candidates && data.candidates[0] && data.candidates[0].output))\<close>
\<close>

definition candidates_output :: "'n platform \<Rightarrow> 'n jsval \<Rightarrow> string + 'n jsval" where
  "candidates_output pf data =
     js_and pf data
       (case member data ''candidates'' of
          Inl e \<Rightarrow> Inl e
        | Inr c \<Rightarrow>
            js_and pf c
              (case index0 c of
                 Inl e \<Rightarrow> Inl e
               | Inr x \<Rightarrow> js_and pf x (member x ''output'')))"

text \<open>
  \<^verbatim>\<open>(data && data.output && data.output[0] && data.output[0].content)\<close>
\<close>

definition output_content :: "'n platform \<Rightarrow> 'n jsval \<Rightarrow> string + 'n jsval" where
  "output_content pf data =
     js_and pf data
       (case member data ''output'' of
          Inl e \<Rightarrow> Inl e
        | Inr c \<Rightarrow>
            js_and pf c
              (case index0 c of
                 Inl e \<Rightarrow> Inl e
               | Inr x \<Rightarrow> js_and pf x (member x ''content'')))"

text \<open>The value of \<^verbatim>\<open>reply\<close> in line 146.\<close>

definition extract_reply :: "'n platform \<Rightarrow> 'n json \<Rightarrow> string + 'n jsval" where
  "extract_reply pf data =
     (case candidates_output pf (Some data) of
        Inl e \<Rightarrow> Inl e
      | Inr a \<Rightarrow>
          js_or pf a
            (case output_content pf (Some data) of
               Inl e \<Rightarrow> Inl e
             | Inr b \<Rightarrow> js_or pf b (Inr (Some (JStr (stringify pf data))))))"

text \<open>
  What the upstream does during one call of \<^verbatim>\<open>/api/gemini_chat\<close>: whether the timeout
  callback runs while \<^verbatim>\<open>fetch\<close> is pending, how \<^verbatim>\<open>fetch\<close> settles, and for a response
  its \<^verbatim>\<open>ok\<close> flag and what \<^verbatim>\<open>r.json()\<close> parses (\<open>None\<close>: it rejects).
\<close>

record 'n chat_upstream =
  chat_ok :: bool
  chat_json :: "'n json option"

record 'n chat_world =
  chat_timeout_fires :: bool
  chat_fetch :: "'n chat_upstream fetch_outcome"

definition chat_try :: "'n platform \<Rightarrow> 'n chat_world \<Rightarrow> 'n session \<Rightarrow> 'n session \<times> completion" where
  "chat_try pf w s0 =
     (let s1 = s0\<lparr>timer_armed := True\<rparr>;
          s2 = s1\<lparr>fetch_calls := Suc (fetch_calls s1)\<rparr>;
          s3 = (if chat_timeout_fires w then abort (s2\<lparr>timer_armed := False\<rparr>) else s2)
      in case chat_fetch w of
           Rejects name \<Rightarrow> (s3, Thrown name)
         | Resolves r \<Rightarrow>
             (let s4 = s3\<lparr>timer_armed := False\<rparr> in
              if \<not> chat_ok r then reject 502 ''Upstream AI API error'' s4
              else
                (let data = (case chat_json r of None \<Rightarrow> JNull | Some d \<Rightarrow> d) in
                 case extract_reply pf data of
                   Inl e \<Rightarrow> (s4, Thrown e)
                 | Inr reply \<Rightarrow> (respond 200 (reply_body reply) s4, Completed))))"

definition chat_catch :: "string \<Rightarrow> 'n session \<Rightarrow> 'n session \<times> completion" where
  "chat_catch name s =
     (if name = ''AbortError'' then reject 504 ''AI request timed out'' s
      else reject 500 ''Internal server error'' s)"

text \<open>
  \<^verbatim>\<open>app.post('/api/gemini_chat', ...)\<close>: \<open>key\<close> is \<^verbatim>\<open>GEMINI_API_KEY\<close>, \<open>body\<close> is
  \<^verbatim>\<open>req.body\<close>.
\<close>

definition gemini_chat ::
  "'n platform \<Rightarrow> string option \<Rightarrow> 'n jsval \<Rightarrow> 'n chat_world \<Rightarrow> 'n session \<times> completion" where
  "gemini_chat pf key body w =
     (case read_message pf body of
        Inl e \<Rightarrow> (idle, Thrown e)
      | Inr message \<Rightarrow>
          if \<not> truthy pf message then reject 400 ''message required'' idle
          else if key_missing key then reject 500 ''GEMINI_API_KEY not configured in server'' idle
          else
            (case chat_try pf w idle of
               (s, Thrown name) \<Rightarrow> chat_catch name s
             | r \<Rightarrow> r))"

section \<open>The streaming endpoint\<close>

text \<open>
  While the handler is suspended at an \<^verbatim>\<open>await\<close> the event loop runs the callbacks it
  has registered: the heartbeat interval (\<open>Tick\<close>), the \<^verbatim>\<open>'close'\<close> listener of the
  request (\<open>Close\<close>) and the upstream timeout (\<open>TimeoutFire\<close>). The handler awaits
  \<^verbatim>\<open>fetch\<close>, \<^verbatim>\<open>upstream.text()\<close> and each \<^verbatim>\<open>reader.read()\<close>; between two of these it
  runs without interruption. Of the calls the handler makes, \<^verbatim>\<open>fetch\<close>,
  \<^verbatim>\<open>reader.read()\<close> and \<^verbatim>\<open>res.write\<close> may throw; \<^verbatim>\<open>res.setHeader\<close>, \<^verbatim>\<open>res.end\<close>,
  \<^verbatim>\<open>clearInterval\<close>, \<^verbatim>\<open>clearTimeout\<close> and \<^verbatim>\<open>JSON.stringify\<close> are taken not to. An
  exception of \<^verbatim>\<open>upstream.body.getReader()\<close> acts like one of the first read.
  \<open>Close\<close> is the listener of line 40 running, whatever made the request emit
  \<^verbatim>\<open>'close'\<close>: the client going away, or, on Node.js 16 and later, the request body
  having been read, which happens while \<^verbatim>\<open>fetch\<close> is pending.
\<close>

datatype event = Tick | Close | TimeoutFire

text \<open>
  The outcome of one \<^verbatim>\<open>reader.read()\<close>: a chunk of bytes, the end of the body, or a
  rejection with the given \<^verbatim>\<open>err.name\<close>.
\<close>

datatype 'b read_outcome = ReadChunk 'b | ReadDone | ReadThrows string

text \<open>
  An upstream response: its \<^verbatim>\<open>ok\<close> flag, the callbacks that run while
  \<^verbatim>\<open>upstream.text()\<close> is awaited, and its body. \<open>None\<close> is a response without a
  body; otherwise the body is the list of its reads, each with the callbacks that run
  while it is awaited. After the last read of the list the next \<^verbatim>\<open>reader.read()\<close>
  never settles: \<open>stall_events\<close> are the callbacks that run while the handler stays
  suspended at it.
\<close>

record 'b upstream =
  up_ok :: bool
  text_events :: "event list"
  up_body :: "(event list \<times> 'b read_outcome) list option"
  stall_events :: "event list"

text \<open>
  The body of a response of \<^verbatim>\<open>node-fetch\<close>, to which line 3 binds \<^verbatim>\<open>fetch\<close>: a Node.js
  stream. It has no \<^verbatim>\<open>getReader\<close>, so line 82 throws a TypeError before any chunk is
  read; an exception of \<^verbatim>\<open>upstream.body.getReader()\<close> is written as one of the first
  read.
\<close>

definition node_stream :: "(event list \<times> 'b read_outcome) list" where
  "node_stream = [([], ReadThrows ''TypeError'')]"

text \<open>
  Everything outside the handler during one call of \<^verbatim>\<open>/api/gemini_stream\<close>: the
  callbacks that run while \<^verbatim>\<open>fetch\<close> is pending, how \<^verbatim>\<open>fetch\<close> settles, and for
  the \<open>i\<close>-th call of \<^verbatim>\<open>res.write\<close> whether it throws (\<open>Some\<close> of the error's name).
\<close>

record 'b world =
  fetch_events :: "event list"
  fetch_result :: "'b upstream fetch_outcome"
  write_error :: "nat \<Rightarrow> string option"

text \<open>
  \<^verbatim>\<open>new TextDecoder()\<close> and \<^verbatim>\<open>decoder.decode(value, { stream: true })\<close>: the decoder
  keeps the bytes of an incomplete character between calls.
\<close>

record ('b, 'd) decoder =
  fresh :: 'd
  decode :: "'d \<Rightarrow> 'b \<Rightarrow> string \<times> 'd"

text \<open>\<^verbatim>\<open>res.write(..)\<close>: the event is on the wire unless the call throws.\<close>

definition res_write :: "(nat \<Rightarrow> string option) \<Rightarrow> sse \<Rightarrow> 'n session \<Rightarrow> 'n session \<times> string option" where
  "res_write we ev s =
     (case we (write_calls s) of
        None \<Rightarrow> (s\<lparr>write_calls := Suc (write_calls s), wire := wire s @ [ev]\<rparr>, None)
      | Some name \<Rightarrow> (s\<lparr>write_calls := Suc (write_calls s)\<rparr>, Some name))"

text \<open>\<^verbatim>\<open>if(!closed) res.write(..)\<close>\<close>

definition write_unless_closed ::
  "(nat \<Rightarrow> string option) \<Rightarrow> sse \<Rightarrow> 'n session \<Rightarrow> 'n session \<times> string option" where
  "write_unless_closed we ev s = (if closed s then (s, None) else res_write we ev s)"

text \<open>\<^verbatim>\<open>clearInterval(heartbeat)\<close>\<close>

definition clear_heartbeat :: "'n session \<Rightarrow> 'n session" where
  "clear_heartbeat s = s\<lparr>heartbeat_on := False, clear_calls := Suc (clear_calls s)\<rparr>"

text \<open>
  One callback. A tick of a cleared interval and a timeout that is not pending do not
  run; the request emits \<^verbatim>\<open>'close'\<close> once, so a second \<open>Close\<close> does nothing. The
  heartbeat ignores a write that throws.
\<close>

definition deliver :: "(nat \<Rightarrow> string option) \<Rightarrow> event \<Rightarrow> 'n session \<Rightarrow> 'n session" where
  "deliver we ev s = (case ev of
      Tick \<Rightarrow> if heartbeat_on s then fst (res_write we Heartbeat s) else s
    | Close \<Rightarrow> if closed s then s else abort (clear_heartbeat (s\<lparr>closed := True\<rparr>))
    | TimeoutFire \<Rightarrow> if timer_armed s then abort (s\<lparr>timer_armed := False\<rparr>) else s)"

definition deliver_all :: "(nat \<Rightarrow> string option) \<Rightarrow> event list \<Rightarrow> 'n session \<Rightarrow> 'n session" where
  "deliver_all we evs s = fold (deliver we) evs s"

text \<open>
  The loop of lines 84 to 91. \<open>Completed\<close>: the loop was left by a \<^verbatim>\<open>break\<close>. When
  the reads of the body are used up, the handler calls \<^verbatim>\<open>reader.read()\<close> once more and
  stays suspended while the callbacks \<open>stall\<close> run.
\<close>

fun relay_loop ::
  "(nat \<Rightarrow> string option) \<Rightarrow> ('b, 'd) decoder \<Rightarrow> event list \<Rightarrow> 'd
     \<Rightarrow> (event list \<times> 'b read_outcome) list \<Rightarrow> 'n session \<Rightarrow> 'n session \<times> completion" where
  "relay_loop we dec stall d [] s =
     (deliver_all we stall (s\<lparr>read_calls := Suc (read_calls s)\<rparr>), Suspended)"
| "relay_loop we dec stall d ((evs, r) # rest) s =
     (let s1 = deliver_all we evs (s\<lparr>read_calls := Suc (read_calls s)\<rparr>) in
      case r of
        ReadThrows name \<Rightarrow> (s1, Thrown name)
      | ReadDone \<Rightarrow> (s1, Completed)
      | ReadChunk bytes \<Rightarrow>
          (let (chunk, d') = decode dec d bytes in
           if closed s1 then (s1, Completed)
           else
             (case res_write we (Chunk chunk) s1 of
                (s2, Some name) \<Rightarrow> (s2, Completed)
              | (s2, None) \<Rightarrow> relay_loop we dec stall d' rest s2)))"

text \<open>\<^verbatim>\<open>clearInterval(heartbeat); res.end()\<close>\<close>

definition end_stream :: "'n session \<Rightarrow> 'n session \<times> completion" where
  "end_stream s = ((clear_heartbeat s)\<lparr>ended := True\<rparr>, Completed)"

text \<open>An error event, then the end of the stream (lines 70 to 72 and 77 to 79).\<close>

definition fail_stream :: "(nat \<Rightarrow> string option) \<Rightarrow> string \<Rightarrow> 'n session \<Rightarrow> 'n session \<times> completion" where
  "fail_stream we m s =
     (case write_unless_closed we (Failure m) s of
        (s1, Some name) \<Rightarrow> (s1, Thrown name)
      | (s1, None) \<Rightarrow> end_stream s1)"

text \<open>Lines 93 to 95, after the loop.\<close>

definition after_loop :: "(nat \<Rightarrow> string option) \<Rightarrow> 'n session \<Rightarrow> 'n session \<times> completion" where
  "after_loop we s =
     (case write_unless_closed we Done s of
        (s1, Some name) \<Rightarrow> (s1, Thrown name)
      | (s1, None) \<Rightarrow> end_stream s1)"

text \<open>Lines 67 to 95: what the handler does with the upstream response.\<close>

definition relay_response ::
  "(nat \<Rightarrow> string option) \<Rightarrow> ('b, 'd) decoder \<Rightarrow> 'b upstream \<Rightarrow> 'n session
     \<Rightarrow> 'n session \<times> completion" where
  "relay_response we dec up s =
     (if \<not> up_ok up then fail_stream we ''Upstream error'' (deliver_all we (text_events up) s)
      else
        (case up_body up of
           None \<Rightarrow> fail_stream we ''No stream from upstream'' s
         | Some reads \<Rightarrow>
             (case relay_loop we dec (stall_events up) (fresh dec) reads s of
                (s1, Completed) \<Rightarrow> after_loop we s1
              | r \<Rightarrow> r)))"

text \<open>
  The body of \<^verbatim>\<open>try\<close>, lines 48 to 95: the timeout is armed, \<^verbatim>\<open>fetch\<close> is awaited,
  the timeout is cleared once \<^verbatim>\<open>fetch\<close> has resolved.
\<close>

definition stream_try ::
  "('b, 'd) decoder \<Rightarrow> 'b world \<Rightarrow> 'n session \<Rightarrow> 'n session \<times> completion" where
  "stream_try dec w s0 =
     (let we = write_error w;
          s1 = s0\<lparr>timer_armed := True\<rparr>;
          s2 = deliver_all we (fetch_events w) (s1\<lparr>fetch_calls := Suc (fetch_calls s1)\<rparr>)
      in case fetch_result w of
           Rejects name \<Rightarrow> (s2, Thrown name)
         | Resolves up \<Rightarrow> relay_response we dec up (s2\<lparr>timer_armed := False\<rparr>))"

text \<open>\<^verbatim>\<open>if(!closed) res.write(..error event..); res.end()\<close> in the \<^verbatim>\<open>catch\<close> block.\<close>

definition report_and_end ::
  "(nat \<Rightarrow> string option) \<Rightarrow> string \<Rightarrow> 'n session \<Rightarrow> 'n session \<times> completion" where
  "report_and_end we m s =
     (case write_unless_closed we (Failure m) s of
        (s1, Some n) \<Rightarrow> (s1, Thrown n)
      | (s1, None) \<Rightarrow> (s1\<lparr>ended := True\<rparr>, Completed))"

text \<open>
  The \<^verbatim>\<open>catch\<close> block, lines 97 to 104. An exception of one of its writes leaves the
  handler.
\<close>

definition stream_catch :: "(nat \<Rightarrow> string option) \<Rightarrow> string \<Rightarrow> 'n session \<Rightarrow> 'n session \<times> completion" where
  "stream_catch we name s =
     (let s1 = clear_heartbeat s in
      if name = ''AbortError'' then report_and_end we ''AI request timed out'' s1
      else report_and_end we ''Internal server error'' s1)"

text \<open>Lines 25 to 45: the headers, the flag, the heartbeat, the listener.\<close>

definition open_stream :: "'n session \<Rightarrow> 'n session" where
  "open_stream s = s\<lparr>stream_headers := True, closed := False, heartbeat_on := True\<rparr>"

text \<open>
  \<^verbatim>\<open>app.post('/api/gemini_stream', ...)\<close>: \<open>key\<close> is \<^verbatim>\<open>GEMINI_API_KEY\<close>, \<open>body\<close> is
  \<^verbatim>\<open>req.body\<close>.
\<close>

definition gemini_stream ::
  "'n platform \<Rightarrow> ('b, 'd) decoder \<Rightarrow> string option \<Rightarrow> 'n jsval \<Rightarrow> 'b world
     \<Rightarrow> 'n session \<times> completion" where
  "gemini_stream pf dec key body w =
     (case read_message pf body of
        Inl e \<Rightarrow> (idle, Thrown e)
      | Inr message \<Rightarrow>
          if \<not> truthy pf message then reject 400 ''message required'' idle
          else if key_missing key then reject 500 ''GEMINI_API_KEY not configured in server'' idle
          else
            (case stream_try dec w (open_stream idle) of
               (s, Thrown name) \<Rightarrow> stream_catch (write_error w) name s
             | r \<Rightarrow> r))"

section \<open>The body parser\<close>

text \<open>
  Line 11 puts \<^verbatim>\<open>express.json({ limit: '256kb' })\<close> in front of both routes. It is not
  code of this repository; this is what the parser does with the body of a request, with
  the options of line 11 (strict by default). The body as it arrives:
  \<^item> \<open>NoJson\<close>: there is no body, or it is not sent as \<^verbatim>\<open>application/json\<close>;
  \<^item> \<open>TooLarge\<close>: it is longer than 256 kB;
  \<^item> \<open>Malformed\<close>: it is not JSON;
  \<^item> \<open>Document v\<close>: it is the JSON text of \<open>v\<close>.
  The parser hands an object or an array on as \<^verbatim>\<open>req.body\<close>; a body without JSON is handed
  on with \<^verbatim>\<open>req.body\<close> undefined (\<open>bare\<close>, as Express 5 does) or \<^verbatim>\<open>{}\<close> (as Express 4
  does). Everything else it refuses: Express answers with the status \<open>Inl\<close> gives and an
  HTML page, and the route's handler does not run.
\<close>

datatype 'n inbound = NoJson | TooLarge | Malformed | Document "'n json"

fun express_json :: "bool \<Rightarrow> 'n inbound \<Rightarrow> nat + 'n jsval" where
  "express_json bare NoJson = Inr (if bare then None else Some (JObj []))"
| "express_json bare TooLarge = Inl 413"
| "express_json bare Malformed = Inl 400"
| "express_json bare (Document (JObj kvs)) = Inr (Some (JObj kvs))"
| "express_json bare (Document (JArr xs)) = Inr (Some (JArr xs))"
| "express_json bare (Document JNull) = Inl 400"
| "express_json bare (Document (JBool b)) = Inl 400"
| "express_json bare (Document (JNum n)) = Inl 400"
| "express_json bare (Document (JStr s)) = Inl 400"

text \<open>A POST to each route: the parser, then the handler.\<close>

definition post_gemini_chat ::
  "bool \<Rightarrow> 'n platform \<Rightarrow> string option \<Rightarrow> 'n inbound \<Rightarrow> 'n chat_world
     \<Rightarrow> nat + 'n session \<times> completion" where
  "post_gemini_chat bare pf key inb w =
     (case express_json bare inb of
        Inl code \<Rightarrow> Inl code
      | Inr body \<Rightarrow> Inr (gemini_chat pf key body w))"

definition post_gemini_stream ::
  "bool \<Rightarrow> 'n platform \<Rightarrow> ('b, 'd) decoder \<Rightarrow> string option \<Rightarrow> 'n inbound \<Rightarrow> 'b world
     \<Rightarrow> nat + 'n session \<times> completion" where
  "post_gemini_stream bare pf dec key inb w =
     (case express_json bare inb of
        Inl code \<Rightarrow> Inl code
      | Inr body \<Rightarrow> Inr (gemini_stream pf dec key body w))"

section \<open>Notions used to state the properties\<close>

text \<open>
  Optional chaining, \<^verbatim>\<open>v?.k\<close> and \<^verbatim>\<open>v?.[0]\<close>: the access, or \<^verbatim>\<open>undefined\<close> where
  the access would throw.
\<close>

definition opt_member :: "'n jsval \<Rightarrow> string \<Rightarrow> 'n jsval" where
  "opt_member v k = (case member v k of Inl e \<Rightarrow> None | Inr x \<Rightarrow> x)"

definition opt_index0 :: "'n jsval \<Rightarrow> 'n jsval" where
  "opt_index0 v = (case index0 v of Inl e \<Rightarrow> None | Inr x \<Rightarrow> x)"

text \<open>
  The reply as the specification words it: the first of \<^verbatim>\<open>candidates[0].output\<close> and
  \<^verbatim>\<open>output[0].content\<close> that is there and truthy, else the serialised document.
\<close>

definition candidates_shape :: "'n json \<Rightarrow> 'n jsval" where
  "candidates_shape data = opt_member (opt_index0 (opt_member (Some data) ''candidates'')) ''output''"

definition output_shape :: "'n json \<Rightarrow> 'n jsval" where
  "output_shape data = opt_member (opt_index0 (opt_member (Some data) ''output'')) ''content''"

definition first_match :: "'n platform \<Rightarrow> 'n json \<Rightarrow> 'n jsval" where
  "first_match pf data =
     (if truthy pf (candidates_shape data) then candidates_shape data
      else if truthy pf (output_shape data) then output_shape data
      else Some (JStr (stringify pf data)))"

text \<open>The prompt of a request: the \<^verbatim>\<open>message\<close> property of a body that is an object.\<close>

definition prompt :: "'n jsval \<Rightarrow> 'n jsval" where
  "prompt body = (case body of Some (JObj kvs) \<Rightarrow> map_of kvs ''message'' | _ \<Rightarrow> None)"

text \<open>
  A request turned away at validation: the handler returned after sending the status
  and the error body, with no upstream call made and nothing of a stream set up.
\<close>

definition turned_away :: "nat \<Rightarrow> string \<Rightarrow> 'n session \<times> completion \<Rightarrow> bool" where
  "turned_away code m r =
     (snd r = Completed
      \<and> response (fst r) = Some \<lparr>status = code, payload = error_body m\<rparr>
      \<and> fetch_calls (fst r) = 0
      \<and> \<not> stream_headers (fst r)
      \<and> wire (fst r) = []
      \<and> write_calls (fst r) = 0)"

text \<open>The data events of a wire: everything but the heartbeat comments.\<close>

definition data_events :: "sse list \<Rightarrow> sse list" where
  "data_events evs = filter (\<lambda>e. e \<noteq> Heartbeat) evs"

text \<open>A terminal event: the completion marker or an error event.\<close>

fun terminal :: "sse \<Rightarrow> bool" where
  "terminal Done = True"
| "terminal (Failure m) = True"
| "terminal (Chunk c) = False"
| "terminal Heartbeat = False"

text \<open>The texts one decoder yields for a sequence of chunks, in order.\<close>

fun decode_all :: "('b, 'd) decoder \<Rightarrow> 'd \<Rightarrow> 'b list \<Rightarrow> string list" where
  "decode_all dec d [] = []"
| "decode_all dec d (b # bs) = fst (decode dec d b) # decode_all dec (snd (decode dec d b)) bs"

text \<open>
  A platform and a decoder to run the handlers on: integer numbers, strings quoted with
  the quote and the backslash escaped, and chunks that are ASCII text already.
\<close>

fun digits :: "nat \<Rightarrow> string" where
  "digits n = (if n < 10 then [''0123456789'' ! n] else digits (n div 10) @ [''0123456789'' ! (n mod 10)])"

definition int_text :: "int \<Rightarrow> string" where
  "int_text n = (if n < 0 then ''-'' @ digits (nat (- n)) else digits (nat n))"

definition quoted :: "string \<Rightarrow> string" where
  "quoted s =
     [CHR 0x22]
     @ concat (map (\<lambda>c. if c = CHR 0x22 \<or> c = CHR 0x5C then [CHR 0x5C, c] else [c]) s)
     @ [CHR 0x22]"

definition int_platform :: "int platform" where
  "int_platform = \<lparr>num_truthy = (\<lambda>n. n \<noteq> 0), num_text = int_text, str_text = quoted\<rparr>"

definition ascii_decoder :: "(string, unit) decoder" where
  "ascii_decoder = \<lparr>fresh = (), decode = (\<lambda>d b. (b, d))\<rparr>"

text \<open>
  So far only the \<^verbatim>\<open>'close'\<close> listener can have stopped the heartbeat: the interval
  runs unless the client is gone, and \<^verbatim>\<open>clearInterval\<close> was called by the listener
  alone.
\<close>

definition listener_only :: "'n session \<Rightarrow> bool" where
  "listener_only s = (heartbeat_on s = (\<not> closed s) \<and> clear_calls s = (if closed s then 1 else 0))"

text \<open>Reads that each deliver a chunk, with the callbacks that run while each is awaited.\<close>

definition chunk_reads :: "(event list \<times> 'b) list \<Rightarrow> (event list \<times> 'b read_outcome) list" where
  "chunk_reads cs = map (\<lambda>ec. (fst ec, ReadChunk (snd ec))) cs"



section \<open>The wire format\<close>

lemma render_chunk:
  "render int_platform (Chunk ''He'') = ''data: {'' @ quoted ''chunk'' @ '':'' @ quoted ''He'' @ ''}'' @ [CHR 0x0A, CHR 0x0A]"
  by (simp add: render_def int_platform_def join_with_def)

lemma render_done: "render pf Done = ''data: [DONE]'' @ [CHR 0x0A, CHR 0x0A]"
  by (simp add: render_def)

section \<open>Reading the request and the upstream document\<close>

lemma read_message_value: "read_message pf body = Inr (prompt body)"
  by (cases "(pf, body)" rule: truthy.cases)
     (auto simp: read_message_def js_or_def prompt_def)

lemma member_truthy: "truthy pf v \<Longrightarrow> member v k = Inr (opt_member v k)"
  by (cases "(pf, v)" rule: truthy.cases) (auto simp: opt_member_def)

lemma index0_truthy: "truthy pf v \<Longrightarrow> index0 v = Inr (opt_index0 v)"
  by (cases "(pf, v)" rule: truthy.cases) (auto simp: opt_index0_def)

lemma opt_member_falsy: "\<not> truthy pf v \<Longrightarrow> opt_member v k = None"
  by (cases "(pf, v)" rule: truthy.cases) (auto simp: opt_member_def)

lemma opt_index0_falsy: "\<not> truthy pf v \<Longrightarrow> opt_index0 v = None"
  by (cases "(pf, v)" rule: truthy.cases) (auto simp: opt_index0_def)

lemma guard_chain:
  "js_and pf v (case member v ka of Inl e \<Rightarrow> Inl e | Inr c \<Rightarrow>
      js_and pf c (case index0 c of Inl e \<Rightarrow> Inl e | Inr x \<Rightarrow> js_and pf x (member x kb)))
   = Inr (if truthy pf v then
            if truthy pf (opt_member v ka) then
              if truthy pf (opt_index0 (opt_member v ka)) then opt_member (opt_index0 (opt_member v ka)) kb
              else opt_index0 (opt_member v ka)
            else opt_member v ka
          else v)"
  by (simp add: js_and_def member_truthy index0_truthy)

lemma guard_chain_shape:
  "\<exists>a. js_and pf v (case member v ka of Inl e \<Rightarrow> Inl e | Inr c \<Rightarrow>
      js_and pf c (case index0 c of Inl e \<Rightarrow> Inl e | Inr x \<Rightarrow> js_and pf x (member x kb))) = Inr a
     \<and> (truthy pf a \<longrightarrow> a = opt_member (opt_index0 (opt_member v ka)) kb)
     \<and> (\<not> truthy pf a \<longrightarrow> \<not> truthy pf (opt_member (opt_index0 (opt_member v ka)) kb))"
  unfolding guard_chain
  using opt_member_falsy [where pf = pf and v = v and k = ka]
        opt_index0_falsy [where pf = pf and v = "opt_member v ka"]
        opt_member_falsy [where pf = pf and v = "opt_index0 (opt_member v ka)" and k = kb]
  by auto

lemma extract_reply_first: "extract_reply pf data = Inr (first_match pf data)"
proof -
  obtain a where a: "candidates_output pf (Some data) = Inr a"
    "truthy pf a \<Longrightarrow> a = candidates_shape data"
    "\<not> truthy pf a \<Longrightarrow> \<not> truthy pf (candidates_shape data)"
    unfolding candidates_output_def candidates_shape_def
    using guard_chain_shape [where pf = pf and v = "Some data" and ka = "''candidates''" and kb = "''output''"] by blast
  obtain b where b: "output_content pf (Some data) = Inr b"
    "truthy pf b \<Longrightarrow> b = output_shape data"
    "\<not> truthy pf b \<Longrightarrow> \<not> truthy pf (output_shape data)"
    unfolding output_content_def output_shape_def
    using guard_chain_shape [where pf = pf and v = "Some data" and ka = "''output''" and kb = "''content''"] by blast
  show ?thesis
    using a b by (auto simp: extract_reply_def js_or_def first_match_def)
qed

lemma chat_reply:
  assumes "truthy pf (prompt body)" "\<not> key_missing key" "chat_fetch w = Resolves r" "chat_ok r"
  shows "gemini_chat pf key body w =
    (respond 200 (reply_body (first_match pf (case chat_json r of None \<Rightarrow> JNull | Some d \<Rightarrow> d)))
       ((if chat_timeout_fires w then abort (idle\<lparr>fetch_calls := 1\<rparr>) else idle\<lparr>fetch_calls := 1\<rparr>)\<lparr>timer_armed := False\<rparr>), Completed)"
  using assms
  by (simp add: gemini_chat_def read_message_value chat_try_def extract_reply_first Let_def idle_def abort_def)

section \<open>Writes and callbacks\<close>

lemma res_write_snd [simp]: "snd (res_write we ev s) = we (write_calls s)"
  by (simp add: res_write_def split: option.splits)

lemma res_write_wire:
  "wire (fst (res_write we ev s)) = (if we (write_calls s) = None then wire s @ [ev] else wire s)"
  by (simp add: res_write_def split: option.splits)

lemma res_write_fields [simp]:
  "closed (fst (res_write we ev s)) = closed s"
  "heartbeat_on (fst (res_write we ev s)) = heartbeat_on s"
  "clear_calls (fst (res_write we ev s)) = clear_calls s"
  "read_calls (fst (res_write we ev s)) = read_calls s"
  "abort_calls (fst (res_write we ev s)) = abort_calls s"
  "write_calls (fst (res_write we ev s)) = Suc (write_calls s)"
  by (simp_all add: res_write_def split: option.splits)

lemma deliver_all_Nil [simp]: "deliver_all we [] s = s"
  by (simp add: deliver_all_def)

lemma deliver_all_Cons [simp]: "deliver_all we (e # es) s = deliver_all we es (deliver we e s)"
  by (simp add: deliver_all_def)

lemma deliver_listener_only: "listener_only s \<Longrightarrow> listener_only (deliver we e s)"
  by (cases e) (auto simp: deliver_def listener_only_def clear_heartbeat_def abort_def)

lemma deliver_all_listener_only: "listener_only s \<Longrightarrow> listener_only (deliver_all we es s)"
  by (induction es arbitrary: s) (simp_all add: deliver_listener_only)

lemma deliver_terminal: "filter terminal (wire (deliver we e s)) = filter terminal (wire s)"
  by (cases e) (auto simp: deliver_def clear_heartbeat_def abort_def res_write_wire)

lemma deliver_data: "data_events (wire (deliver we e s)) = data_events (wire s)"
  by (cases e) (auto simp: deliver_def clear_heartbeat_def abort_def res_write_wire data_events_def)

lemma deliver_all_data: "data_events (wire (deliver_all we es s)) = data_events (wire s)"
  by (induction es arbitrary: s) (simp_all add: deliver_data)

lemma deliver_all_closed: "closed (deliver_all we es s) = (closed s \<or> Close \<in> set es)"
proof (induction es arbitrary: s)
  case Nil
  then show ?case by simp
next
  case (Cons e es)
  have "closed (deliver we e s) = (closed s \<or> e = Close)"
    by (cases e) (auto simp: deliver_def clear_heartbeat_def abort_def)
  with Cons show ?case by auto
qed

lemma deliver_all_read_calls [simp]: "read_calls (deliver_all we es s) = read_calls s"
proof (induction es arbitrary: s)
  case Nil
  then show ?case by simp
next
  case (Cons e es)
  have "read_calls (deliver we e s) = read_calls s"
    by (cases e) (auto simp: deliver_def clear_heartbeat_def abort_def)
  with Cons show ?case by simp
qed

section \<open>The loop\<close>

lemma relay_loop_chunk:
  "relay_loop we dec stall d ((evs, ReadChunk v) # rest) s =
     (let s1 = deliver_all we evs (s\<lparr>read_calls := Suc (read_calls s)\<rparr>) in
      if closed s1 then (s1, Completed)
      else if we (write_calls s1) \<noteq> None then (fst (res_write we (Chunk (fst (decode dec d v))) s1), Completed)
      else relay_loop we dec stall (snd (decode dec d v)) rest
             (fst (res_write we (Chunk (fst (decode dec d v))) s1)))"
  by (cases "decode dec d v"; cases "res_write we (Chunk (fst (decode dec d v))) (deliver_all we evs (s\<lparr>read_calls := Suc (read_calls s)\<rparr>))")
     (auto simp: Let_def res_write_def split: option.splits)

lemma deliver_all_invariant:
  assumes "\<And>s e. P s \<Longrightarrow> P (deliver we e s)" "P s"
  shows "P (deliver_all we es s)"
  using assms(2) by (induction es arbitrary: s) (simp_all add: assms(1))

lemma relay_loop_invariant:
  assumes reads: "\<And>s n. P s \<Longrightarrow> P (s\<lparr>read_calls := n\<rparr>)"
    and events: "\<And>s e. P s \<Longrightarrow> P (deliver we e s)"
    and chunk: "\<And>s c. P s \<Longrightarrow> \<not> closed s \<Longrightarrow> P (fst (res_write we (Chunk c) s))"
    and start: "P s"
  shows "P (fst (relay_loop we dec stall d reads s))"
  using start
proof (induction reads arbitrary: s d)
  case Nil
  have "P (deliver_all we stall (s\<lparr>read_calls := Suc (read_calls s)\<rparr>))"
    using Nil by (intro deliver_all_invariant [of P] events reads)
  then show ?case by simp
next
  case (Cons a reads)
  obtain evs r where a: "a = (evs, r)" by (cases a)
  let ?s1 = "deliver_all we evs (s\<lparr>read_calls := Suc (read_calls s)\<rparr>)"
  have s1: "P ?s1"
    using Cons.prems by (intro deliver_all_invariant [of P] events reads)
  show ?case
  proof (cases r)
    case (ReadChunk v)
    show ?thesis
      unfolding a ReadChunk relay_loop_chunk Let_def
      using s1 chunk [OF s1] Cons.IH by auto
  next
    case ReadDone
    then show ?thesis using s1 by (simp add: a)
  next
    case (ReadThrows n)
    then show ?thesis using s1 by (simp add: a)
  qed
qed

section \<open>How a stream ends\<close>

lemma stream_shape:
  assumes timer: "\<And>s b. P s \<Longrightarrow> P (s\<lparr>timer_armed := b\<rparr>)"
    and fetches: "\<And>s n. P s \<Longrightarrow> P (s\<lparr>fetch_calls := n\<rparr>)"
    and reads: "\<And>s n. P s \<Longrightarrow> P (s\<lparr>read_calls := n\<rparr>)"
    and events: "\<And>s e. P s \<Longrightarrow> P (deliver (write_error w) e s)"
    and chunk: "\<And>s c. P s \<Longrightarrow> \<not> closed s \<Longrightarrow> P (fst (res_write (write_error w) (Chunk c) s))"
    and failed: "\<And>s ev. P s \<Longrightarrow> \<not> closed s \<Longrightarrow> write_error w (write_calls s) \<noteq> None
                   \<Longrightarrow> P (fst (res_write (write_error w) ev s))"
    and start: "P (open_stream (idle :: 'n session))"
    and valid: "truthy pf (prompt body)" "\<not> key_missing key"
  shows "\<exists>p. P p \<and>
           (gemini_stream pf dec key body w = (p, Suspended)
            \<or> (\<exists>name. gemini_stream pf dec key body w = stream_catch (write_error w) name p)
            \<or> (\<exists>ev. terminal ev \<and> snd (write_unless_closed (write_error w) ev p) = None
                  \<and> gemini_stream pf dec key body w
                      = end_stream (fst (write_unless_closed (write_error w) ev p))))"
proof -
  let ?we = "write_error w"
  let ?run = "gemini_stream pf dec key body w"
  let ?goal = "\<lambda>p. P p \<and>
           (?run = (p, Suspended)
            \<or> (\<exists>name. ?run = stream_catch ?we name p)
            \<or> (\<exists>ev. terminal ev \<and> snd (write_unless_closed ?we ev p) = None
                  \<and> ?run = end_stream (fst (write_unless_closed ?we ev p))))"
  have run: "?run = (case stream_try dec w (open_stream idle) of
               (s, Thrown name) \<Rightarrow> stream_catch ?we name s | r \<Rightarrow> r)"
    using valid by (simp add: gemini_stream_def read_message_value)
  have closing: "\<exists>p. ?goal p"
    if p: "P p" and ev: "terminal ev"
      and r: "stream_try dec w (open_stream idle) =
          (case write_unless_closed ?we ev p of (q, Some n) \<Rightarrow> (q, Thrown n) | (q, None) \<Rightarrow> end_stream q)"
    for p ev
  proof (cases "snd (write_unless_closed ?we ev p)")
    case None
    then have "?run = end_stream (fst (write_unless_closed ?we ev p))"
      unfolding run r by (cases "write_unless_closed ?we ev p") (simp add: end_stream_def)
    with p ev None show ?thesis by blast
  next
    case (Some n)
    then have nc: "\<not> closed p" and bad: "?we (write_calls p) \<noteq> None"
      by (auto simp: write_unless_closed_def split: if_splits)
    have "P (fst (res_write ?we ev p))" by (rule failed [OF p nc bad])
    moreover have "?run = stream_catch ?we n (fst (res_write ?we ev p))"
      unfolding run r using Some nc
      by (cases "res_write ?we ev p") (auto simp: write_unless_closed_def)
    ultimately show ?thesis by blast
  qed
  let ?s0 = "open_stream (idle :: 'n session)"
  let ?s2 = "deliver_all ?we (fetch_events w)
               (?s0\<lparr>timer_armed := True, fetch_calls := Suc (fetch_calls ?s0)\<rparr>)"
  have s2: "P ?s2"
    by (intro deliver_all_invariant [of P] events) (use timer fetches start in auto)
  show ?thesis
  proof (cases "fetch_result w")
    case (Rejects name)
    then have "?run = stream_catch ?we name ?s2"
      unfolding run by (simp add: stream_try_def Let_def)
    with s2 show ?thesis by blast
  next
    case (Resolves up)
    let ?s3 = "?s2\<lparr>timer_armed := False\<rparr>"
    have s3: "P ?s3" using s2 timer by blast
    show ?thesis
    proof (cases "up_ok up")
      case False
      have "P (deliver_all ?we (text_events up) ?s3)"
        by (intro deliver_all_invariant [of P] events s3)
      then show ?thesis
        by (rule closing [where ev = "Failure ''Upstream error''"])
           (simp_all add: stream_try_def relay_response_def Let_def Resolves False fail_stream_def)
    next
      case True
      show ?thesis
      proof (cases "up_body up")
        case None
        show ?thesis
          by (rule closing [OF s3, where ev = "Failure ''No stream from upstream''"])
             (simp_all add: stream_try_def relay_response_def Let_def Resolves True None fail_stream_def)
      next
        case (Some reads)
        obtain s4 c where loop: "relay_loop ?we dec (stall_events up) (fresh dec) reads ?s3 = (s4, c)"
          by (cases "relay_loop ?we dec (stall_events up) (fresh dec) reads ?s3")
        have s4: "P s4"
          using relay_loop_invariant [where P = P and we = ?we and s = ?s3 and dec = dec and stall = "stall_events up"
                and d = "fresh dec" and reads = reads, OF reads events chunk s3] loop
          by simp
        have tried: "stream_try dec w (open_stream idle) =
            (case (s4, c) of (s4, Completed) \<Rightarrow> after_loop ?we s4 | r \<Rightarrow> r)"
          using loop by (simp add: stream_try_def relay_response_def Let_def Resolves True Some)
        show ?thesis
        proof (cases c)
          case Completed
          show ?thesis
            by (rule closing [OF s4, where ev = Done])
               (simp_all add: tried Completed after_loop_def)
        next
          case (Thrown n)
          then have "?run = stream_catch ?we n s4" unfolding run tried by simp
          with s4 show ?thesis by blast
        next
          case Suspended
          then have "?run = (s4, Suspended)" unfolding run tried by simp
          with s4 show ?thesis by blast
        qed
      qed
    qed
  qed
qed

section \<open>Validation of the request\<close>

lemma turned_away_reject: "turned_away code m (reject code m idle)"
  by (simp add: turned_away_def reject_def respond_def idle_def)

text \<open>
  C6, as amended. A request whose prompt is missing or falsy is turned away by both
  endpoints with status 400 and the body \<^verbatim>\<open>{"error":"message required"}\<close>; a request
  with a prompt, made while \<^verbatim>\<open>GEMINI_API_KEY\<close> is unset or empty, is turned away by both
  endpoints with status 500 and the body
  \<^verbatim>\<open>{"error":"GEMINI_API_KEY not configured in server"}\<close>. In both cases no upstream call
  has been made, no stream header set and nothing written to the response.
\<close>

theorem validation_order:
  "(\<not> truthy pf (prompt body) \<longrightarrow>
      turned_away 400 ''message required'' (gemini_chat pf key body cw)
      \<and> turned_away 400 ''message required'' (gemini_stream pf dec key body sw))
   \<and> (truthy pf (prompt body) \<and> key_missing key \<longrightarrow>
      turned_away 500 ''GEMINI_API_KEY not configured in server'' (gemini_chat pf key body cw)
      \<and> turned_away 500 ''GEMINI_API_KEY not configured in server'' (gemini_stream pf dec key body sw))"
  by (simp add: gemini_chat_def gemini_stream_def read_message_value turned_away_reject)

text \<open>
  C6, witness: an empty prompt with a credential on the JSON endpoint, and a prompt
  without a credential on the streaming endpoint.
\<close>

theorem validation_order_witness:
  "turned_away 400 ''message required''
     (gemini_chat int_platform (Some ''secret'') (Some (JObj [(''message'', JStr [])]))
        \<lparr>chat_timeout_fires = False, chat_fetch = Rejects ''FetchError''\<rparr>)
   \<and> turned_away 500 ''GEMINI_API_KEY not configured in server''
     (gemini_stream int_platform ascii_decoder None (Some (JObj [(''message'', JStr ''hi'')]))
        \<lparr>fetch_events = [], fetch_result = Rejects ''FetchError'', write_error = (\<lambda>i. None)\<rparr>)"
  using validation_order [where pf = int_platform and body = "Some (JObj [(''message'', JStr [])])"
          and key = "Some ''secret''" and dec = ascii_decoder
          and cw = "\<lparr>chat_timeout_fires = False, chat_fetch = Rejects ''FetchError''\<rparr>"
          and sw = "\<lparr>fetch_events = [], fetch_result = Rejects ''FetchError'', write_error = (\<lambda>i. None)\<rparr>"]
        validation_order [where pf = int_platform and body = "Some (JObj [(''message'', JStr ''hi'')])"
          and key = None and dec = ascii_decoder
          and cw = "\<lparr>chat_timeout_fires = False, chat_fetch = Rejects ''FetchError''\<rparr>"
          and sw = "\<lparr>fetch_events = [], fetch_result = Rejects ''FetchError'', write_error = (\<lambda>i. None)\<rparr>"]
  by (simp add: prompt_def key_missing_def int_platform_def)

text \<open>
  C6, counterexample to the claim as stated: the prompt is checked first, so a request
  without a prompt made while the credential is not configured does not get the
  status 500 and the credential error, on either endpoint.
\<close>

theorem credential_first_counterexample:
  "key_missing None
   \<and> \<not> turned_away 500 ''GEMINI_API_KEY not configured in server''
        (gemini_chat int_platform None (Some (JObj []))
           \<lparr>chat_timeout_fires = False, chat_fetch = Rejects ''FetchError''\<rparr>)
   \<and> \<not> turned_away 500 ''GEMINI_API_KEY not configured in server''
        (gemini_stream int_platform ascii_decoder None (Some (JObj []))
           \<lparr>fetch_events = [], fetch_result = Rejects ''FetchError'', write_error = (\<lambda>i. None)\<rparr>)"
  by (simp add: key_missing_def gemini_chat_def gemini_stream_def read_message_value prompt_def
        turned_away_def reject_def respond_def)

lemma handler_defaults_body:
  assumes "\<forall>kvs. body \<noteq> Some (JObj kvs)"
  shows "read_message pf body = Inr None
         \<and> turned_away 400 ''message required'' (gemini_chat pf key body cw)
         \<and> turned_away 400 ''message required'' (gemini_stream pf dec key body sw)"
proof -
  have "prompt body = None"
    using assms by (auto simp: prompt_def split: option.splits json.splits)
  then show ?thesis
    by (simp add: gemini_chat_def gemini_stream_def read_message_value turned_away_reject)
qed

text \<open>
  C9, as amended. A POST without a JSON body (none at all, or one not sent as
  \<^verbatim>\<open>application/json\<close>) and a POST whose body is a JSON array reach the handlers, which
  find no message in \<^verbatim>\<open>req.body || {}\<close> and answer, on both endpoints, with status 400
  and \<^verbatim>\<open>{"error":"message required"}\<close>, without throwing.
\<close>

theorem inbound_body_defaulted:
  assumes "inb = NoJson \<or> (\<exists>xs. inb = Document (JArr xs))"
  shows "(case post_gemini_chat bare pf key inb cw of
            Inl code \<Rightarrow> False
          | Inr r \<Rightarrow> turned_away 400 ''message required'' r)
         \<and> (case post_gemini_stream bare pf dec key inb sw of
            Inl code \<Rightarrow> False
          | Inr r \<Rightarrow> turned_away 400 ''message required'' r)"
proof -
  have "\<exists>body. express_json bare inb = Inr body \<and> prompt body = None"
    using assms by (auto simp: prompt_def)
  then obtain body where body: "express_json bare inb = Inr body" "prompt body = None"
    by blast
  show ?thesis
    using body
    by (simp add: post_gemini_chat_def post_gemini_stream_def gemini_chat_def gemini_stream_def
          read_message_value turned_away_reject)
qed

text \<open>C9, witness: a request without a body, and one whose body is an array.\<close>

theorem inbound_body_defaulted_witness:
  "(case post_gemini_chat False int_platform (Some ''secret'') NoJson
        \<lparr>chat_timeout_fires = False, chat_fetch = Rejects ''FetchError''\<rparr> of
      Inl code \<Rightarrow> False
    | Inr r \<Rightarrow> turned_away 400 ''message required'' r)
   \<and> (case post_gemini_stream True int_platform ascii_decoder (Some ''secret'') (Document (JArr [JStr ''hi'']))
        \<lparr>fetch_events = [], fetch_result = Rejects ''FetchError'', write_error = (\<lambda>i. None)\<rparr> of
      Inl code \<Rightarrow> False
    | Inr r \<Rightarrow> turned_away 400 ''message required'' r)"
  using inbound_body_defaulted [where inb = NoJson and bare = False and pf = int_platform
          and key = "Some ''secret''" and dec = ascii_decoder
          and cw = "\<lparr>chat_timeout_fires = False, chat_fetch = Rejects ''FetchError''\<rparr>"
          and sw = "\<lparr>fetch_events = [], fetch_result = Rejects ''FetchError'', write_error = (\<lambda>i. None)\<rparr>"]
        inbound_body_defaulted [where inb = "Document (JArr [JStr ''hi''])" and bare = True and pf = int_platform
          and key = "Some ''secret''" and dec = ascii_decoder
          and cw = "\<lparr>chat_timeout_fires = False, chat_fetch = Rejects ''FetchError''\<rparr>"
          and sw = "\<lparr>fetch_events = [], fetch_result = Rejects ''FetchError'', write_error = (\<lambda>i. None)\<rparr>"]
  by simp

text \<open>
  C9, counterexample to the claim as stated: the body \<^verbatim>\<open>"hello"\<close>, a JSON string. The
  parser of line 11 refuses it, Express answers with status 400 and an HTML page, and
  neither handler runs.
\<close>

theorem json_primitive_body_counterexample:
  "post_gemini_chat False int_platform (Some ''secret'') (Document (JStr ''hello''))
        \<lparr>chat_timeout_fires = False, chat_fetch = Rejects ''FetchError''\<rparr> = Inl 400
   \<and> post_gemini_stream True int_platform ascii_decoder (Some ''secret'') (Document (JStr ''hello''))
        \<lparr>fetch_events = [], fetch_result = Rejects ''FetchError'', write_error = (\<lambda>i. None)\<rparr> = Inl 400"
  by (simp add: post_gemini_chat_def post_gemini_stream_def)

section \<open>The reply of the JSON endpoint\<close>

text \<open>
  C8. The guarded expression of the handler never throws and computes the first match:
  \<^verbatim>\<open>candidates[0].output\<close> when it is truthy, else \<^verbatim>\<open>output[0].content\<close> when it is
  truthy, else the serialised document. A successful upstream response is answered with
  status 200 and this reply, and the document
  \<^verbatim>\<open>{ candidates: [{ output: "hi there" }] }\<close> gives \<^verbatim>\<open>{ "reply": "hi there" }\<close>.
\<close>

theorem reply_first_match:
  "extract_reply pf data = Inr (first_match pf data)
   \<and> (truthy pf (prompt body) \<and> \<not> key_missing key \<and> chat_fetch w = Resolves r \<and> chat_ok r
        \<and> chat_json r = Some data \<longrightarrow>
      snd (gemini_chat pf key body w) = Completed
      \<and> response (fst (gemini_chat pf key body w))
          = Some \<lparr>status = 200, payload = reply_body (first_match pf data)\<rparr>)
   \<and> reply_body (first_match pf (JObj [(''candidates'', JArr [JObj [(''output'', JStr ''hi there'')]])]))
       = JObj [(''reply'', JStr ''hi there'')]"
  by (auto simp: extract_reply_first chat_reply respond_def first_match_def candidates_shape_def
        opt_member_def opt_index0_def reply_body_def)

text \<open>C8, witness: the run of the handler on the document of the specification.\<close>

theorem reply_first_match_witness:
  "snd (gemini_chat int_platform (Some ''secret'') (Some (JObj [(''message'', JStr ''hi'')]))
        \<lparr>chat_timeout_fires = False,
         chat_fetch = Resolves \<lparr>chat_ok = True,
           chat_json = Some (JObj [(''candidates'', JArr [JObj [(''output'', JStr ''hi there'')]])])\<rparr>\<rparr>) = Completed
   \<and> response (fst (gemini_chat int_platform (Some ''secret'') (Some (JObj [(''message'', JStr ''hi'')]))
        \<lparr>chat_timeout_fires = False,
         chat_fetch = Resolves \<lparr>chat_ok = True,
           chat_json = Some (JObj [(''candidates'', JArr [JObj [(''output'', JStr ''hi there'')]])])\<rparr>\<rparr>))
     = Some \<lparr>status = 200, payload = JObj [(''reply'', JStr ''hi there'')]\<rparr>"
  using reply_first_match [of int_platform
          "JObj [(''candidates'', JArr [JObj [(''output'', JStr ''hi there'')]])]"
          "Some (JObj [(''message'', JStr ''hi'')])" "Some ''secret''"
          "\<lparr>chat_timeout_fires = False,
         chat_fetch = Resolves \<lparr>chat_ok = True,
           chat_json = Some (JObj [(''candidates'', JArr [JObj [(''output'', JStr ''hi there'')]])])\<rparr>\<rparr>"
          "\<lparr>chat_ok = True,
           chat_json = Some (JObj [(''candidates'', JArr [JObj [(''output'', JStr ''hi there'')]])])\<rparr>"]
  by (simp add: prompt_def key_missing_def int_platform_def)

text \<open>
  C10. When the upstream answers with a success status and \<^verbatim>\<open>r.json()\<close> rejects, the
  endpoint returns status 200 with the reply \<^verbatim>\<open>"null"\<close>; when the document has no
  truthy \<^verbatim>\<open>candidates[0].output\<close> and no truthy \<^verbatim>\<open>output[0].content\<close>, it returns
  status 200 with the serialised document as reply.
\<close>

theorem serialised_fallback:
  assumes "truthy pf (prompt body)" "\<not> key_missing key" "chat_fetch w = Resolves r" "chat_ok r"
  shows "(chat_json r = None \<longrightarrow>
            snd (gemini_chat pf key body w) = Completed
            \<and> response (fst (gemini_chat pf key body w))
                = Some \<lparr>status = 200, payload = JObj [(''reply'', JStr ''null'')]\<rparr>)
         \<and> (\<forall>d. chat_json r = Some d \<and> \<not> truthy pf (candidates_shape d) \<and> \<not> truthy pf (output_shape d) \<longrightarrow>
            snd (gemini_chat pf key body w) = Completed
            \<and> response (fst (gemini_chat pf key body w))
                = Some \<lparr>status = 200, payload = JObj [(''reply'', JStr (stringify pf d))]\<rparr>)"
  using assms
  by (auto simp: chat_reply respond_def first_match_def candidates_shape_def output_shape_def
        opt_member_def opt_index0_def reply_body_def)

text \<open>
  C10, witness: a body that does not parse, and a document whose
  \<^verbatim>\<open>candidates[0].output\<close> is the empty string.
\<close>

theorem serialised_fallback_witness:
  "response (fst (gemini_chat int_platform (Some ''secret'') (Some (JObj [(''message'', JStr ''hi'')]))
        \<lparr>chat_timeout_fires = False, chat_fetch = Resolves \<lparr>chat_ok = True, chat_json = None\<rparr>\<rparr>))
     = Some \<lparr>status = 200, payload = JObj [(''reply'', JStr ''null'')]\<rparr>
   \<and> response (fst (gemini_chat int_platform (Some ''secret'') (Some (JObj [(''message'', JStr ''hi'')]))
        \<lparr>chat_timeout_fires = False,
         chat_fetch = Resolves \<lparr>chat_ok = True,
           chat_json = Some (JObj [(''candidates'', JArr [JObj [(''output'', JStr [])]])])\<rparr>\<rparr>))
     = Some \<lparr>status = 200, payload = JObj [(''reply'',
         JStr (stringify int_platform (JObj [(''candidates'', JArr [JObj [(''output'', JStr [])]])])))]\<rparr>
   \<and> stringify int_platform (JObj [(''candidates'', JArr [JObj [(''output'', JStr [])]])])
     = [CHR ''{'', CHR 0x22] @ ''candidates'' @ [CHR 0x22] @ '':[{'' @ [CHR 0x22] @ ''output'' @ [CHR 0x22, CHR '':'', CHR 0x22, CHR 0x22] @ ''}]}''"
  using serialised_fallback [where pf = int_platform and key = "Some ''secret''"
          and body = "Some (JObj [(''message'', JStr ''hi'')])"
          and w = "\<lparr>chat_timeout_fires = False, chat_fetch = Resolves \<lparr>chat_ok = True, chat_json = None\<rparr>\<rparr>"
          and r = "\<lparr>chat_ok = True, chat_json = None\<rparr>"]
        serialised_fallback [where pf = int_platform and key = "Some ''secret''"
          and body = "Some (JObj [(''message'', JStr ''hi'')])"
          and w = "\<lparr>chat_timeout_fires = False,
         chat_fetch = Resolves \<lparr>chat_ok = True,
           chat_json = Some (JObj [(''candidates'', JArr [JObj [(''output'', JStr [])]])])\<rparr>\<rparr>"
          and r = "\<lparr>chat_ok = True,
           chat_json = Some (JObj [(''candidates'', JArr [JObj [(''output'', JStr [])]])])\<rparr>"]
  by (simp add: prompt_def key_missing_def int_platform_def candidates_shape_def output_shape_def
        opt_member_def opt_index0_def join_with_def quoted_def)

section \<open>Facts about the end of a stream\<close>

lemma stream_catch_wire:
  "wire (fst (stream_catch we name s)) = wire s
   \<or> (\<exists>m. wire (fst (stream_catch we name s)) = wire s @ [Failure m])"
  by (auto simp: stream_catch_def report_and_end_def write_unless_closed_def clear_heartbeat_def res_write_def Let_def
           split: option.splits)

lemma stream_catch_timer:
  "heartbeat_on (fst (stream_catch we name s)) = False"
  "clear_calls (fst (stream_catch we name s)) = Suc (clear_calls s)"
  "closed (fst (stream_catch we name s)) = closed s"
  "snd (stream_catch we name s) \<noteq> Suspended"
  by (auto simp: stream_catch_def report_and_end_def write_unless_closed_def clear_heartbeat_def res_write_def Let_def
           split: option.splits)

lemma write_unless_closed_wire:
  "snd (write_unless_closed we ev s) = None \<Longrightarrow>
     wire (fst (write_unless_closed we ev s)) = wire s
     \<or> wire (fst (write_unless_closed we ev s)) = wire s @ [ev]"
  by (auto simp: write_unless_closed_def res_write_def split: option.splits)

lemma write_unless_closed_fields [simp]:
  "closed (fst (write_unless_closed we ev s)) = closed s"
  "heartbeat_on (fst (write_unless_closed we ev s)) = heartbeat_on s"
  "clear_calls (fst (write_unless_closed we ev s)) = clear_calls s"
  by (simp_all add: write_unless_closed_def)

lemma end_stream_fields [simp]:
  "wire (fst (end_stream s)) = wire s"
  "closed (fst (end_stream s)) = closed s"
  "heartbeat_on (fst (end_stream s)) = False"
  "clear_calls (fst (end_stream s)) = Suc (clear_calls s)"
  "ended (fst (end_stream s)) = True"
  "snd (end_stream s) = Completed"
  by (simp_all add: end_stream_def clear_heartbeat_def)

lemma one_terminal_tail:
  assumes "filter terminal w = []" "w' = w \<or> w' = w @ [e]"
  shows "filter terminal (butlast w') = [] \<and> length (filter terminal w') \<le> 1"
proof -
  have "filter terminal (butlast w) = []"
    using assms(1) by (auto simp: filter_empty_conv dest: in_set_butlastD)
  with assms show ?thesis by auto
qed

lemma chunk_reads_Cons:
  "chunk_reads (ec # cs) @ rest = (fst ec, ReadChunk (snd ec)) # (chunk_reads cs @ rest)"
  by (simp add: chunk_reads_def)

lemma relay_loop_prefix:
  assumes "\<not> closed s" "\<forall>i. we i = None" "\<forall>ec \<in> set cs. Close \<notin> set (fst ec)"
  shows "\<exists>s' d'. relay_loop we dec stall d (chunk_reads cs @ rest) s = relay_loop we dec stall d' rest s'
           \<and> \<not> closed s'
           \<and> data_events (wire s') = data_events (wire s) @ map Chunk (decode_all dec d (map snd cs))
           \<and> read_calls s' = read_calls s + length cs"
  using assms(1,3)
proof (induction cs arbitrary: s d)
  case Nil
  then show ?case by (auto simp: chunk_reads_def)
next
  case (Cons ec cs)
  let ?s1 = "deliver_all we (fst ec) (s\<lparr>read_calls := Suc (read_calls s)\<rparr>)"
  let ?c = "fst (decode dec d (snd ec))"
  let ?s2 = "fst (res_write we (Chunk ?c) ?s1)"
  have open1: "\<not> closed ?s1"
    using Cons.prems by (simp add: deliver_all_closed)
  have step: "relay_loop we dec stall d (chunk_reads (ec # cs) @ rest) s
      = relay_loop we dec stall (snd (decode dec d (snd ec))) (chunk_reads cs @ rest) ?s2"
    unfolding chunk_reads_Cons relay_loop_chunk using open1 assms(2) by (simp add: Let_def)
  have data2: "data_events (wire ?s2) = data_events (wire s) @ [Chunk ?c]"
    using assms(2) deliver_all_data [of we "fst ec" "s\<lparr>read_calls := Suc (read_calls s)\<rparr>"]
    by (simp add: res_write_wire data_events_def)
  have "\<not> closed ?s2" using open1 by simp
  moreover have "\<forall>ec \<in> set cs. Close \<notin> set (fst ec)" using Cons.prems by simp
  ultimately obtain s' d' where
    "relay_loop we dec stall (snd (decode dec d (snd ec))) (chunk_reads cs @ rest) ?s2 = relay_loop we dec stall d' rest s'"
    "\<not> closed s'"
    "data_events (wire s') = data_events (wire ?s2) @ map Chunk (decode_all dec (snd (decode dec d (snd ec))) (map snd cs))"
    "read_calls s' = read_calls ?s2 + length cs"
    using Cons.IH [of ?s2 "snd (decode dec d (snd ec))"] by blast
  then show ?case
    unfolding step using data2 by (intro exI [of _ s'] exI [of _ d']) simp
qed

lemma stream_resolved:
  assumes "truthy pf (prompt body)" "\<not> key_missing key" "fetch_result w = Resolves up"
  shows "gemini_stream pf dec key body w =
     (case relay_response (write_error w) dec up
             ((deliver_all (write_error w) (fetch_events w)
                 (open_stream idle\<lparr>timer_armed := True, fetch_calls := 1\<rparr>))\<lparr>timer_armed := False\<rparr>) of
        (s, Thrown name) \<Rightarrow> stream_catch (write_error w) name s
      | r \<Rightarrow> r)"
  using assms
  by (simp add: gemini_stream_def read_message_value stream_try_def Let_def open_stream_def idle_def)

lemma stream_rejected:
  assumes "truthy pf (prompt body)" "\<not> key_missing key" "fetch_result w = Rejects name"
  shows "gemini_stream pf dec key body w =
     stream_catch (write_error w) name
       (deliver_all (write_error w) (fetch_events w)
          (open_stream idle\<lparr>timer_armed := True, fetch_calls := 1\<rparr>))"
  using assms
  by (simp add: gemini_stream_def read_message_value stream_try_def Let_def open_stream_def idle_def)

lemma deliver_abort_mono: "abort_calls s \<le> abort_calls (deliver we e s)"
  by (cases e) (auto simp: deliver_def clear_heartbeat_def abort_def)

lemma deliver_all_abort_mono: "abort_calls s \<le> abort_calls (deliver_all we es s)"
proof (induction es arbitrary: s)
  case Nil
  then show ?case by simp
next
  case (Cons e es)
  show ?case using deliver_abort_mono [of s we e] Cons [of "deliver we e s"] by simp
qed

lemma deliver_all_timeout:
  "timer_armed s \<Longrightarrow> TimeoutFire \<in> set es \<Longrightarrow> abort_calls s < abort_calls (deliver_all we es s)"
proof (induction es arbitrary: s)
  case Nil
  then show ?case by simp
next
  case (Cons e es)
  show ?case
  proof (cases "e = TimeoutFire")
    case True
    then have "abort_calls (deliver we e s) = Suc (abort_calls s)"
      using Cons.prems(1) by (simp add: deliver_def abort_def)
    then show ?thesis
      using deliver_all_abort_mono [of "deliver we e s" we es] by simp
  next
    case False
    have "timer_armed (deliver we e s)"
      using False Cons.prems(1) by (cases e) (auto simp: deliver_def clear_heartbeat_def abort_def res_write_def split: option.splits)
    moreover have "TimeoutFire \<in> set es"
      using False Cons.prems(2) by auto
    ultimately have "timer_armed (deliver we e s)" "TimeoutFire \<in> set es"
      by simp_all
    then show ?thesis
      using Cons.IH [of "deliver we e s"] deliver_abort_mono [of s we e] by simp
  qed
qed

lemma heartbeat_after_validation:
  assumes "truthy pf (prompt body)" "\<not> key_missing key"
  shows "(snd (gemini_stream pf dec key body w) \<noteq> Suspended \<longrightarrow>
            \<not> heartbeat_on (fst (gemini_stream pf dec key body w))
            \<and> clear_calls (fst (gemini_stream pf dec key body w))
                = (if closed (fst (gemini_stream pf dec key body w)) then 2 else 1))
         \<and> (snd (gemini_stream pf dec key body w) = Suspended \<longrightarrow>
            listener_only (fst (gemini_stream pf dec key body w)))"
proof -
  let ?P = "listener_only :: 'a session \<Rightarrow> bool"
  have "\<exists>p. ?P p \<and>
           (gemini_stream pf dec key body w = (p, Suspended)
            \<or> (\<exists>name. gemini_stream pf dec key body w = stream_catch (write_error w) name p)
            \<or> (\<exists>ev. terminal ev \<and> snd (write_unless_closed (write_error w) ev p) = None
                  \<and> gemini_stream pf dec key body w
                      = end_stream (fst (write_unless_closed (write_error w) ev p))))"
  proof (rule stream_shape [where P = ?P])
    show "?P (open_stream idle)" by (simp add: open_stream_def idle_def listener_only_def)
  qed (use assms in \<open>simp_all add: deliver_listener_only\<close>, simp_all add: listener_only_def)
  then obtain p where p: "listener_only p"
    and cases: "gemini_stream pf dec key body w = (p, Suspended)
            \<or> (\<exists>name. gemini_stream pf dec key body w = stream_catch (write_error w) name p)
            \<or> (\<exists>ev. terminal ev \<and> snd (write_unless_closed (write_error w) ev p) = None
                  \<and> gemini_stream pf dec key body w
                      = end_stream (fst (write_unless_closed (write_error w) ev p)))"
    by blast
  from cases show ?thesis
  proof (elim disjE exE conjE)
    assume "gemini_stream pf dec key body w = (p, Suspended)"
    then show ?thesis using p by simp
  next
    fix name
    assume "gemini_stream pf dec key body w = stream_catch (write_error w) name p"
    then show ?thesis using p stream_catch_timer [of "write_error w" name p]
      by (auto simp: listener_only_def)
  next
    fix ev
    assume "gemini_stream pf dec key body w = end_stream (fst (write_unless_closed (write_error w) ev p))"
    then show ?thesis using p by (auto simp: listener_only_def)
  qed
qed

lemma silent_after_late_disconnect:
  assumes valid: "truthy pf (prompt body)" "\<not> key_missing key"
    and up: "fetch_result w = Resolves up" "up_ok up"
      "up_body up = Some (chunk_reads cs @ (evs, out) # rest)"
    and connected: "Close \<notin> set (fetch_events w)" "\<forall>ec \<in> set cs. Close \<notin> set (fst ec)"
    and gone: "Close \<in> set evs"
    and writes: "\<forall>i. write_error w i = None"
  shows "snd (gemini_stream pf dec key body w) = Completed
         \<and> closed (fst (gemini_stream pf dec key body w))
         \<and> read_calls (fst (gemini_stream pf dec key body w)) = Suc (length cs)
         \<and> data_events (wire (fst (gemini_stream pf dec key body w)))
             = map Chunk (decode_all dec (fresh dec) (map snd cs))"
proof -
  let ?we = "write_error w"
  let ?s3 = "(deliver_all ?we (fetch_events w)
                 (open_stream idle\<lparr>timer_armed := True, fetch_calls := 1\<rparr>))\<lparr>timer_armed := False\<rparr> :: 'a session"
  have open3: "\<not> closed ?s3"
    using connected(1) by (simp add: deliver_all_closed open_stream_def)
  have data3: "data_events (wire ?s3) = []"
    by (simp add: deliver_all_data) (simp add: open_stream_def idle_def data_events_def)
  have reads3: "read_calls ?s3 = 0"
    by (simp add: open_stream_def idle_def)
  obtain s' d' where loop: "relay_loop ?we dec (stall_events up) (fresh dec) (chunk_reads cs @ (evs, out) # rest) ?s3
        = relay_loop ?we dec (stall_events up) d' ((evs, out) # rest) s'"
    and data': "data_events (wire s') = data_events (wire ?s3) @ map Chunk (decode_all dec (fresh dec) (map snd cs))"
    and reads': "read_calls s' = read_calls ?s3 + length cs"
    using relay_loop_prefix [OF open3 writes connected(2),
        where dec = dec and d = "fresh dec" and rest = "(evs, out) # rest"] by blast
  let ?s5 = "deliver_all ?we evs (s'\<lparr>read_calls := Suc (read_calls s')\<rparr>)"
  have closed5: "closed ?s5" using gone by (simp add: deliver_all_closed)
  have data5: "data_events (wire ?s5) = map Chunk (decode_all dec (fresh dec) (map snd cs))"
    using data' data3 by (simp add: deliver_all_data)
  have reads5: "read_calls ?s5 = Suc (length cs)"
    using reads' reads3 by simp
  have "gemini_stream pf dec key body w = end_stream ?s5
        \<or> (\<exists>n. gemini_stream pf dec key body w = stream_catch ?we n ?s5)"
  proof (cases out)
    case (ReadChunk v)
    then show ?thesis
      unfolding stream_resolved [OF valid up(1)] relay_response_def
      using up(2,3) loop closed5
      by (simp add: relay_loop_chunk Let_def after_loop_def write_unless_closed_def end_stream_def)
  next
    case ReadDone
    then show ?thesis
      unfolding stream_resolved [OF valid up(1)] relay_response_def
      using up(2,3) loop closed5
      by (simp add: after_loop_def write_unless_closed_def end_stream_def)
  next
    case (ReadThrows n)
    then show ?thesis
      unfolding stream_resolved [OF valid up(1)] relay_response_def
      using up(2,3) loop closed5
      by auto
  qed
  moreover have "stream_catch ?we n ?s5 = ((clear_heartbeat ?s5)\<lparr>ended := True\<rparr>, Completed)" for n
    using closed5 by (simp add: stream_catch_def report_and_end_def write_unless_closed_def clear_heartbeat_def Let_def)
  ultimately have "gemini_stream pf dec key body w = end_stream ?s5"
    by (auto simp: end_stream_def)
  then show ?thesis
    using closed5 data5 reads5 by (simp add: end_stream_def clear_heartbeat_def)
qed

lemma deliver_frozen:
  "closed s \<and> \<not> heartbeat_on s \<and> wire s = w0 \<Longrightarrow>
   closed (deliver we e s) \<and> \<not> heartbeat_on (deliver we e s) \<and> wire (deliver we e s) = w0"
  by (cases e) (auto simp: deliver_def abort_def)

lemma relay_response_frozen:
  assumes "closed s" "\<not> heartbeat_on s"
  shows "wire (fst (case relay_response we dec up s of
                      (s', Thrown n) \<Rightarrow> stream_catch we n s' | r \<Rightarrow> r)) = wire s"
proof -
  let ?P = "\<lambda>t :: 'a session. closed t \<and> \<not> heartbeat_on t \<and> wire t = wire s"
  have start: "?P s" using assms by simp
  have closing: "wire (fst (case (case write_unless_closed we ev t of
                                   (q, Some n) \<Rightarrow> (q, Thrown n) | (q, None) \<Rightarrow> end_stream q) of
                      (s', Thrown n) \<Rightarrow> stream_catch we n s' | r \<Rightarrow> r)) = wire s"
    if "?P t" for t ev
    using that by (simp add: write_unless_closed_def end_stream_def clear_heartbeat_def)
  show ?thesis
  proof (cases "up_ok up")
    case False
    have "?P (deliver_all we (text_events up) s)"
    proof (rule deliver_all_invariant [of ?P])
      show "?P (deliver we e t)" if "?P t" for t e
        using deliver_frozen [OF that] .
    qed (rule start)
    then show ?thesis
      using closing [of "deliver_all we (text_events up) s" "Failure ''Upstream error''"] False
      by (simp add: relay_response_def fail_stream_def)
  next
    case True
    show ?thesis
    proof (cases "up_body up")
      case None
      then show ?thesis
        using closing [OF start, of "Failure ''No stream from upstream''"] True
        by (simp add: relay_response_def fail_stream_def)
    next
      case (Some reads)
      obtain s4 c where loop: "relay_loop we dec (stall_events up) (fresh dec) reads s = (s4, c)"
        by (cases "relay_loop we dec (stall_events up) (fresh dec) reads s")
      have "?P (fst (relay_loop we dec (stall_events up) (fresh dec) reads s))"
      proof (rule relay_loop_invariant [of ?P])
        show "?P (deliver we e t)" if "?P t" for t e
          using deliver_frozen [OF that] .
        show "?P (t\<lparr>read_calls := n\<rparr>)" if "?P t" for t n
          using that by simp
        show "?P (fst (res_write we (Chunk c) t))" if "?P t" "\<not> closed t" for t c
          using that by simp
      qed (rule start)
      then have s4: "?P s4" using loop by simp
      show ?thesis
      proof (cases c)
        case Completed
        then show ?thesis
          using closing [OF s4, of Done] True Some loop
          by (simp add: relay_response_def after_loop_def)
      next
        case (Thrown n)
        then show ?thesis
          using s4 True Some loop
          by (simp add: relay_response_def stream_catch_def report_and_end_def
                write_unless_closed_def clear_heartbeat_def Let_def)
      next
        case Suspended
        then show ?thesis
          using s4 True Some loop by (simp add: relay_response_def)
      qed
    qed
  qed
qed

lemma silent_after_early_disconnect:
  assumes valid: "truthy pf (prompt body)" "\<not> key_missing key"
    and gone: "Close \<in> set (fetch_events w)"
  shows "data_events (wire (fst (gemini_stream pf dec key body w))) = []"
proof -
  let ?we = "write_error w"
  let ?s1 = "open_stream idle\<lparr>timer_armed := True, fetch_calls := 1\<rparr> :: 'a session"
  let ?s2 = "deliver_all ?we (fetch_events w) ?s1"
  have "listener_only ?s1" by (simp add: listener_only_def open_stream_def idle_def)
  then have "listener_only ?s2" by (rule deliver_all_listener_only)
  moreover have shut: "closed ?s2" using gone by (simp add: deliver_all_closed)
  ultimately have quiet: "\<not> heartbeat_on ?s2" by (simp add: listener_only_def)
  have data: "data_events (wire ?s2) = []"
    by (simp add: deliver_all_data) (simp add: open_stream_def idle_def data_events_def)
  have "wire (fst (gemini_stream pf dec key body w)) = wire ?s2"
  proof (cases "fetch_result w")
    case (Rejects name)
    then show ?thesis
      using shut by (simp add: stream_rejected [OF valid] stream_catch_def report_and_end_def
            write_unless_closed_def clear_heartbeat_def Let_def)
  next
    case (Resolves up)
    show ?thesis
      using relay_response_frozen [of "?s2\<lparr>timer_armed := False\<rparr>" ?we dec up] shut quiet
      by (simp add: stream_resolved [OF valid Resolves])
  qed
  then show ?thesis using data by simp
qed



lemma node_stream_never_relays:
  assumes valid: "truthy pf (prompt body)" "\<not> key_missing key"
    and up: "fetch_result w = Resolves up" "up_ok up" "up_body up = Some node_stream"
  shows "data_events (wire (fst (gemini_stream pf dec key body w))) = []
         \<or> data_events (wire (fst (gemini_stream pf dec key body w))) = [Failure ''Internal server error'']"
proof -
  let ?we = "write_error w"
  let ?s3 = "(deliver_all ?we (fetch_events w)
                 (open_stream idle\<lparr>timer_armed := True, fetch_calls := 1\<rparr>))\<lparr>timer_armed := False\<rparr> :: 'a session"
  have data3: "data_events (wire ?s3) = []"
    by (simp add: deliver_all_data) (simp add: open_stream_def idle_def data_events_def)
  have run: "gemini_stream pf dec key body w
      = stream_catch ?we ''TypeError'' (?s3\<lparr>read_calls := Suc (read_calls ?s3)\<rparr>)"
    unfolding stream_resolved [OF valid up(1)] relay_response_def
    using up(2,3) by (simp add: node_stream_def)
  show ?thesis
    unfolding run using data3
    by (auto simp: stream_catch_def report_and_end_def write_unless_closed_def clear_heartbeat_def
          res_write_def Let_def data_events_def split: option.splits)
qed

section \<open>The relay\<close>

text \<open>
  What the loop does with a body that has a reader: when the reads deliver the chunks
  \<open>cs\<close> and then the end, the \<^verbatim>\<open>'close'\<close> listener never runs and no \<^verbatim>\<open>res.write\<close>
  throws, the data events are one chunk event for each chunk, in order, then one
  \<^verbatim>\<open>[DONE]\<close>. A response of \<^verbatim>\<open>node-fetch\<close> has no such body.
\<close>

lemma relay_with_reader:
  assumes valid: "truthy pf (prompt body)" "\<not> key_missing key"
    and up: "fetch_result w = Resolves up" "up_ok up"
      "up_body up = Some (chunk_reads cs @ (evs, ReadDone) # rest)"
    and connected: "Close \<notin> set (fetch_events w)" "\<forall>ec \<in> set cs. Close \<notin> set (fst ec)"
      "Close \<notin> set evs"
    and writes: "\<forall>i. write_error w i = None"
  shows "snd (gemini_stream pf dec key body w) = Completed
         \<and> data_events (wire (fst (gemini_stream pf dec key body w)))
             = map Chunk (decode_all dec (fresh dec) (map snd cs)) @ [Done]"
proof -
  let ?we = "write_error w"
  let ?s3 = "(deliver_all ?we (fetch_events w)
                 (open_stream idle\<lparr>timer_armed := True, fetch_calls := 1\<rparr>))\<lparr>timer_armed := False\<rparr> :: 'a session"
  have open3: "\<not> closed ?s3"
    using connected(1) by (simp add: deliver_all_closed open_stream_def)
  have data3: "data_events (wire ?s3) = []"
    by (simp add: deliver_all_data) (simp add: open_stream_def idle_def data_events_def)
  obtain s' d' where loop: "relay_loop ?we dec (stall_events up) (fresh dec) (chunk_reads cs @ (evs, ReadDone) # rest) ?s3
        = relay_loop ?we dec (stall_events up) d' ((evs, ReadDone) # rest) s'"
    and open': "\<not> closed s'"
    and data': "data_events (wire s') = data_events (wire ?s3) @ map Chunk (decode_all dec (fresh dec) (map snd cs))"
    using relay_loop_prefix [OF open3 writes connected(2),
        where dec = dec and d = "fresh dec" and rest = "(evs, ReadDone) # rest"] by blast
  let ?s5 = "deliver_all ?we evs (s'\<lparr>read_calls := Suc (read_calls s')\<rparr>)"
  have open5: "\<not> closed ?s5" using open' connected(3) by (simp add: deliver_all_closed)
  have data5: "data_events (wire ?s5) = map Chunk (decode_all dec (fresh dec) (map snd cs))"
    using data' data3 by (simp add: deliver_all_data)
  have "gemini_stream pf dec key body w = end_stream (fst (res_write ?we Done ?s5))"
    unfolding stream_resolved [OF valid up(1)] relay_response_def
    using up(2,3) loop open5 writes
    by (simp add: after_loop_def write_unless_closed_def res_write_def end_stream_def)
  then show ?thesis
    using data5 writes by (simp add: res_write_wire data_events_def)
qed

text \<open>
  C1. The claim does not hold of the code. The upstream answers with a success status
  and a readable body, the client stays connected and every write goes through. The body
  \<^verbatim>\<open>node-fetch\<close> returns has no \<^verbatim>\<open>getReader\<close>: line 82 throws, and the response carries
  the error event \<^verbatim>\<open>Internal server error\<close> instead of the chunks and \<^verbatim>\<open>[DONE]\<close>. Where
  the request emits \<^verbatim>\<open>'close'\<close> once its body has been read, the listener of line 40
  aborts \<^verbatim>\<open>fetch\<close> at once and the response carries nothing.
\<close>

theorem node_stream_not_relayed:
  "wire (fst (gemini_stream int_platform ascii_decoder (Some ''secret'')
         (Some (JObj [(''message'', JStr ''hi'')]))
         \<lparr>fetch_events = [Tick],
          fetch_result = Resolves \<lparr>up_ok = True, text_events = [], up_body = Some node_stream,
            stall_events = []\<rparr>,
          write_error = (\<lambda>i. None)\<rparr>))
     = [Heartbeat, Failure ''Internal server error'']
   \<and> snd (gemini_stream int_platform ascii_decoder (Some ''secret'')
         (Some (JObj [(''message'', JStr ''hi'')]))
         \<lparr>fetch_events = [Tick],
          fetch_result = Resolves \<lparr>up_ok = True, text_events = [], up_body = Some node_stream,
            stall_events = []\<rparr>,
          write_error = (\<lambda>i. None)\<rparr>) = Completed
   \<and> wire (fst (gemini_stream int_platform ascii_decoder (Some ''secret'')
         (Some (JObj [(''message'', JStr ''hi'')]))
         \<lparr>fetch_events = [Close], fetch_result = Rejects ''AbortError'',
          write_error = (\<lambda>i. None)\<rparr>)) = []"
  by code_simp

text \<open>
  C2. On every path of the streaming handler, whatever the upstream, the client and the
  writes do, the response carries at most one terminal event (the completion marker or
  an error event), and no event follows it.
\<close>

theorem one_terminal_event:
  "filter terminal (butlast (wire (fst (gemini_stream pf dec key body w)))) = []
   \<and> length (filter terminal (wire (fst (gemini_stream pf dec key body w)))) \<le> 1"
proof (cases "truthy pf (prompt body) \<and> \<not> key_missing key")
  case False
  then have "wire (fst (gemini_stream pf dec key body w)) = []"
    by (auto simp: gemini_stream_def read_message_value reject_def respond_def idle_def)
  then show ?thesis by simp
next
  case True
  let ?P = "\<lambda>s :: 'a session. filter terminal (wire s) = []"
  have "\<exists>p. ?P p \<and>
           (gemini_stream pf dec key body w = (p, Suspended)
            \<or> (\<exists>name. gemini_stream pf dec key body w = stream_catch (write_error w) name p)
            \<or> (\<exists>ev. terminal ev \<and> snd (write_unless_closed (write_error w) ev p) = None
                  \<and> gemini_stream pf dec key body w
                      = end_stream (fst (write_unless_closed (write_error w) ev p))))"
  proof (rule stream_shape [where P = ?P])
    show "?P (open_stream idle)" by (simp add: open_stream_def idle_def)
  qed (use True in \<open>simp_all add: deliver_terminal res_write_wire\<close>)
  then obtain p where p: "?P p"
    and cases: "gemini_stream pf dec key body w = (p, Suspended)
            \<or> (\<exists>name. gemini_stream pf dec key body w = stream_catch (write_error w) name p)
            \<or> (\<exists>ev. terminal ev \<and> snd (write_unless_closed (write_error w) ev p) = None
                  \<and> gemini_stream pf dec key body w
                      = end_stream (fst (write_unless_closed (write_error w) ev p)))"
    by blast
  from cases have "wire (fst (gemini_stream pf dec key body w)) = wire p
     \<or> (\<exists>e. wire (fst (gemini_stream pf dec key body w)) = wire p @ [e])"
  proof (elim disjE exE conjE)
    assume "gemini_stream pf dec key body w = (p, Suspended)"
    then show ?thesis by simp
  next
    fix name
    assume "gemini_stream pf dec key body w = stream_catch (write_error w) name p"
    then show ?thesis using stream_catch_wire [of "write_error w" name p] by auto
  next
    fix ev
    assume "snd (write_unless_closed (write_error w) ev p) = None"
      and "gemini_stream pf dec key body w = end_stream (fst (write_unless_closed (write_error w) ev p))"
    then show ?thesis using write_unless_closed_wire [of "write_error w" ev p] by auto
  qed
  then show ?thesis using one_terminal_tail [OF p] by blast
qed

text \<open>
  What the handlers do when the timeout callback runs while \<^verbatim>\<open>fetch\<close> is pending and
  \<^verbatim>\<open>fetch\<close> rejects with an \<^verbatim>\<open>AbortError\<close>: \<^verbatim>\<open>controller.abort()\<close> has been called; the
  streaming handler sends the one error event \<^verbatim>\<open>AI request timed out\<close> when the
  \<open>closed\<close> flag is unset and nothing when it is set; the JSON handler answers with
  status 504 and \<^verbatim>\<open>{"error":"AI request timed out"}\<close>.
\<close>

lemma timeout_unless_closed:
  assumes valid: "truthy pf (prompt body)" "\<not> key_missing key"
  shows "(TimeoutFire \<in> set (fetch_events w) \<and> fetch_result w = Rejects ''AbortError''
            \<and> (\<forall>i. write_error w i = None) \<longrightarrow>
          snd (gemini_stream pf dec key body w) = Completed
          \<and> 1 \<le> abort_calls (fst (gemini_stream pf dec key body w))
          \<and> ended (fst (gemini_stream pf dec key body w))
          \<and> data_events (wire (fst (gemini_stream pf dec key body w)))
              = (if Close \<in> set (fetch_events w) then [] else [Failure ''AI request timed out'']))
       \<and> (chat_timeout_fires cw \<and> chat_fetch cw = Rejects ''AbortError'' \<longrightarrow>
          snd (gemini_chat pf key body cw) = Completed
          \<and> abort_calls (fst (gemini_chat pf key body cw)) = 1
          \<and> response (fst (gemini_chat pf key body cw))
              = Some \<lparr>status = 504, payload = error_body ''AI request timed out''\<rparr>)"
proof (intro conjI impI)
  assume a: "chat_timeout_fires cw \<and> chat_fetch cw = Rejects ''AbortError''"
  then have "gemini_chat pf key body cw
      = reject 504 ''AI request timed out'' (abort (idle\<lparr>timer_armed := False, fetch_calls := 1\<rparr>))"
    using valid
    by (simp add: gemini_chat_def read_message_value chat_try_def chat_catch_def Let_def idle_def abort_def)
  then show "snd (gemini_chat pf key body cw) = Completed"
    "abort_calls (fst (gemini_chat pf key body cw)) = 1"
    "response (fst (gemini_chat pf key body cw))
              = Some \<lparr>status = 504, payload = error_body ''AI request timed out''\<rparr>"
    by (simp_all add: reject_def respond_def abort_def idle_def)
next
  assume a: "TimeoutFire \<in> set (fetch_events w) \<and> fetch_result w = Rejects ''AbortError''
            \<and> (\<forall>i. write_error w i = None)"
  let ?we = "write_error w"
  let ?s2 = "deliver_all ?we (fetch_events w) (open_stream idle\<lparr>timer_armed := True, fetch_calls := 1\<rparr>) :: 'a session"
  have run: "gemini_stream pf dec key body w = stream_catch ?we ''AbortError'' ?s2"
    using a valid by (simp add: stream_rejected)
  let ?s1 = "open_stream idle\<lparr>timer_armed := True, fetch_calls := 1\<rparr> :: 'a session"
  have "abort_calls ?s1 < abort_calls (deliver_all ?we (fetch_events w) ?s1)"
    using a by (intro deliver_all_timeout) simp_all
  then have aborts: "1 \<le> abort_calls ?s2"
    by simp
  have shut: "closed ?s2 = (Close \<in> set (fetch_events w))"
    by (simp add: deliver_all_closed open_stream_def)
  have data: "data_events (wire ?s2) = []"
    by (simp add: deliver_all_data) (simp add: open_stream_def idle_def data_events_def)
  show "snd (gemini_stream pf dec key body w) = Completed"
    "1 \<le> abort_calls (fst (gemini_stream pf dec key body w))"
    "ended (fst (gemini_stream pf dec key body w))"
    "data_events (wire (fst (gemini_stream pf dec key body w)))
              = (if Close \<in> set (fetch_events w) then [] else [Failure ''AI request timed out''])"
    unfolding run using a aborts shut data
    by (simp_all add: stream_catch_def report_and_end_def write_unless_closed_def res_write_def clear_heartbeat_def
          Let_def data_events_def)
qed

text \<open>
  C3. The claim does not hold of the streaming endpoint. The listener of line 40 is on
  the request, which emits \<^verbatim>\<open>'close'\<close> once its body has been read: for a client that
  is still connected the listener sets \<open>closed\<close> and aborts \<^verbatim>\<open>fetch\<close> while it is
  pending, and the \<^verbatim>\<open>catch\<close> block, finding \<open>closed\<close> set, ends the response without
  the event \<^verbatim>\<open>AI request timed out\<close>, whether or not the timeout callback runs as well.
\<close>

theorem timeout_event_lost:
  "gemini_stream int_platform ascii_decoder (Some ''secret'') (Some (JObj [(''message'', JStr ''hi'')]))
       \<lparr>fetch_events = [Close], fetch_result = Rejects ''AbortError'', write_error = (\<lambda>i. None)\<rparr>
     = (\<lparr>response = None, stream_headers = True, wire = [], write_calls = 0, ended = True,
         closed = True, heartbeat_on = False, clear_calls = 2, timer_armed = True,
         abort_calls = 1, fetch_calls = 1, read_calls = 0\<rparr>, Completed)
   \<and> data_events (wire (fst (gemini_stream int_platform ascii_decoder (Some ''secret'')
         (Some (JObj [(''message'', JStr ''hi'')]))
         \<lparr>fetch_events = [Close, TimeoutFire], fetch_result = Rejects ''AbortError'',
          write_error = (\<lambda>i. None)\<rparr>))) = []"
  by code_simp

text \<open>
  C4. When the \<^verbatim>\<open>'close'\<close> listener runs while \<^verbatim>\<open>fetch\<close> is pending, the response
  carries no data event at all. When it runs while the read after the first \<open>N\<close>
  chunks is awaited (and not before, no write throwing), the handler makes no further
  read and the data events on the response are the \<open>N\<close> chunk events sent before: no
  later chunk, no completion marker and no error event.
\<close>

theorem silent_after_disconnect:
  assumes "truthy pf (prompt body)" "\<not> key_missing key"
  shows "(Close \<in> set (fetch_events w) \<longrightarrow>
            data_events (wire (fst (gemini_stream pf dec key body w))) = [])
         \<and> (fetch_result w = Resolves up \<and> up_ok up
              \<and> up_body up = Some (chunk_reads cs @ (evs, out) # rest)
              \<and> Close \<notin> set (fetch_events w) \<and> (\<forall>ec \<in> set cs. Close \<notin> set (fst ec))
              \<and> Close \<in> set evs \<and> (\<forall>i. write_error w i = None) \<longrightarrow>
            snd (gemini_stream pf dec key body w) = Completed
            \<and> closed (fst (gemini_stream pf dec key body w))
            \<and> read_calls (fst (gemini_stream pf dec key body w)) = Suc (length cs)
            \<and> data_events (wire (fst (gemini_stream pf dec key body w)))
                = map Chunk (decode_all dec (fresh dec) (map snd cs)))"
  using silent_after_early_disconnect [OF assms, of w dec]
    silent_after_late_disconnect [OF assms, of w up cs evs out rest dec]
  by blast

text \<open>C4, witness: the client disconnects while the second chunk is awaited.\<close>

theorem silent_after_disconnect_witness:
  "data_events (wire (fst (gemini_stream int_platform ascii_decoder (Some ''secret'')
       (Some (JObj [(''message'', JStr ''hi'')]))
       \<lparr>fetch_events = [],
        fetch_result = Resolves \<lparr>up_ok = True, text_events = [],
          up_body = Some [([], ReadChunk ''He''), ([Close], ReadChunk ''llo''), ([], ReadDone)], stall_events = []\<rparr>,
        write_error = (\<lambda>i. None)\<rparr>)))
   = [Chunk ''He'']
   \<and> read_calls (fst (gemini_stream int_platform ascii_decoder (Some ''secret'')
       (Some (JObj [(''message'', JStr ''hi'')]))
       \<lparr>fetch_events = [],
        fetch_result = Resolves \<lparr>up_ok = True, text_events = [],
          up_body = Some [([], ReadChunk ''He''), ([Close], ReadChunk ''llo''), ([], ReadDone)], stall_events = []\<rparr>,
        write_error = (\<lambda>i. None)\<rparr>)) = 2"
  using silent_after_disconnect [where pf = int_platform and dec = ascii_decoder and key = "Some ''secret''"
      and body = "Some (JObj [(''message'', JStr ''hi'')])"
      and w = "\<lparr>fetch_events = [],
        fetch_result = Resolves \<lparr>up_ok = True, text_events = [],
          up_body = Some [([], ReadChunk ''He''), ([Close], ReadChunk ''llo''), ([], ReadDone)], stall_events = []\<rparr>,
        write_error = (\<lambda>i. None)\<rparr>"
      and up = "\<lparr>up_ok = True, text_events = [],
          up_body = Some [([], ReadChunk ''He''), ([Close], ReadChunk ''llo''), ([], ReadDone)], stall_events = []\<rparr>"
      and cs = "[([], ''He'')]" and evs = "[Close]" and out = "ReadChunk ''llo''" and rest = "[([], ReadDone)]"]
  by (simp add: prompt_def key_missing_def int_platform_def chunk_reads_def ascii_decoder_def)

section \<open>The heartbeat timer\<close>

text \<open>
  C5, as amended. For a request that passes validation, once the handler has returned
  or thrown the heartbeat interval is not active, and \<^verbatim>\<open>clearInterval(heartbeat)\<close> has
  been called once by the handler, and once more by the \<^verbatim>\<open>'close'\<close> listener when the
  client disconnected before the handler finished: twice on the disconnect path, once
  otherwise. While the handler is suspended the interval runs unless the client is gone.
  A request turned away at validation never starts the interval.
\<close>

theorem heartbeat_cleared:
  "(truthy pf (prompt body) \<and> \<not> key_missing key \<longrightarrow>
      (snd (gemini_stream pf dec key body w) \<noteq> Suspended \<longrightarrow>
         \<not> heartbeat_on (fst (gemini_stream pf dec key body w))
         \<and> clear_calls (fst (gemini_stream pf dec key body w))
             = (if closed (fst (gemini_stream pf dec key body w)) then 2 else 1))
      \<and> (snd (gemini_stream pf dec key body w) = Suspended \<longrightarrow>
         listener_only (fst (gemini_stream pf dec key body w))))
   \<and> (\<not> (truthy pf (prompt body) \<and> \<not> key_missing key) \<longrightarrow>
      \<not> heartbeat_on (fst (gemini_stream pf dec key body w))
      \<and> clear_calls (fst (gemini_stream pf dec key body w)) = 0)"
proof (cases "truthy pf (prompt body) \<and> \<not> key_missing key")
  case True
  then show ?thesis
    using heartbeat_after_validation [of pf body key dec w] by blast
next
  case False
  then show ?thesis
    by (auto simp: gemini_stream_def read_message_value reject_def respond_def idle_def)
qed

text \<open>C5, witness: \<^verbatim>\<open>fetch\<close> fails while the client stays connected.\<close>

theorem heartbeat_cleared_witness:
  "\<not> heartbeat_on (fst (gemini_stream int_platform ascii_decoder (Some ''secret'')
           (Some (JObj [(''message'', JStr ''hi'')]))
           \<lparr>fetch_events = [Tick], fetch_result = Rejects ''FetchError'', write_error = (\<lambda>i. None)\<rparr>))
   \<and> clear_calls (fst (gemini_stream int_platform ascii_decoder (Some ''secret'')
           (Some (JObj [(''message'', JStr ''hi'')]))
           \<lparr>fetch_events = [Tick], fetch_result = Rejects ''FetchError'', write_error = (\<lambda>i. None)\<rparr>))
     = 1"
proof -
  let ?w = "\<lparr>fetch_events = [Tick], fetch_result = Rejects ''FetchError'', write_error = (\<lambda>i. None)\<rparr> :: string world"
  let ?r = "gemini_stream int_platform ascii_decoder (Some ''secret'') (Some (JObj [(''message'', JStr ''hi'')])) ?w"
  have run: "snd ?r = Completed \<and> \<not> closed (fst ?r)"
    by (simp add: gemini_stream_def read_message_value prompt_def int_platform_def key_missing_def
        stream_try_def stream_catch_def report_and_end_def open_stream_def idle_def deliver_def clear_heartbeat_def
        abort_def write_unless_closed_def res_write_def Let_def)
  show ?thesis
    using heartbeat_cleared [where pf = int_platform and body = "Some (JObj [(''message'', JStr ''hi'')])"
        and key = "Some ''secret''" and dec = ascii_decoder and w = ?w] run
    by (simp add: prompt_def key_missing_def int_platform_def)
qed

text \<open>
  C5, counterexample to the claim as stated: the client disconnects while \<^verbatim>\<open>fetch\<close> is
  pending. The listener calls \<^verbatim>\<open>clearInterval\<close> (line 42), \<^verbatim>\<open>fetch\<close> rejects, and the
  \<^verbatim>\<open>catch\<close> block calls it again (line 98).
\<close>

theorem heartbeat_cleared_twice_counterexample:
  "snd (gemini_stream int_platform ascii_decoder (Some ''secret'') (Some (JObj [(''message'', JStr ''hi'')]))
           \<lparr>fetch_events = [Close], fetch_result = Rejects ''AbortError'', write_error = (\<lambda>i. None)\<rparr>)
     = Completed
   \<and> clear_calls (fst (gemini_stream int_platform ascii_decoder (Some ''secret'')
           (Some (JObj [(''message'', JStr ''hi'')]))
           \<lparr>fetch_events = [Close], fetch_result = Rejects ''AbortError'', write_error = (\<lambda>i. None)\<rparr>))
     = 2"
  by code_simp

section \<open>A write that throws in the loop\<close>



end
